theory Spec2Isabelle
  imports Complex_Main "HOL-Library.AList" "HOL-Library.Sublist"
begin

section \<open>Strings\<close>

text \<open>
  A JavaScript string is a sequence of code units, modelled as \<^typ>\<open>string\<close>.
  \<open>String.prototype.toLowerCase\<close> and \<open>String.prototype.trim\<close> belong to the
  runtime, not to the program: the case mapping and the set of white space are those of
  Unicode. They are taken as parameters. Every function of the model that calls one of
  them receives the runtime as its first argument, and what is proved below holds for
  whatever the two functions compute.
\<close>

record Runtime =
  toLowerCase :: "string \<Rightarrow> string"
  trim :: "string \<Rightarrow> string"

text \<open>
  \<open>s.startsWith(sub)\<close> and \<open>s.includes(sub)\<close>; the latter is named
  \<open>includesStr\<close>, \<open>includes\<close> being a reserved word.
\<close>

fun startsWith :: "string \<Rightarrow> string \<Rightarrow> bool" where
  "startsWith s [] = True"
| "startsWith [] (c # cs) = False"
| "startsWith (a # as) (c # cs) = (a = c \<and> startsWith as cs)"

fun includesStr :: "string \<Rightarrow> string \<Rightarrow> bool" where
  "includesStr [] sub = (sub = [])"
| "includesStr (a # as) sub = (startsWith (a # as) sub \<or> includesStr as sub)"

text \<open>
  An optional string is \<open>None\<close> when it is \<open>undefined\<close> or \<open>null\<close>. It is truthy
  when it is present and not empty.
\<close>

section \<open>Data model\<close>

text \<open>
  A property of a document that the code tests before it uses it is a \<open>field\<close>.
  \<open>Undefined\<close> is an absent or otherwise falsy property. \<open>Defined xs\<close> is an array
  with the items \<open>xs\<close>. \<open>Text s\<close> is a non-empty string where an array is expected:
  \<open>for ... of\<close> walks its characters, which have no properties, and it has no
  array methods. \<open>NonIterable\<close> is any other truthy value (a number, \<open>true\<close>, a plain
  object): iterating over it raises a \<open>TypeError\<close>, and so does the call of an array
  method on it.
\<close>

datatype 'a field = Undefined | NonIterable | Text string | Defined 'a

datatype error =
    TypeError
  | StoreError string
  | CacheError string
  | Error string

record Property =
  prop_code :: string
  valueString :: "string option"
  valueCode :: "string option"

record Concept =
  concept_code :: string
  concept_display :: string
  concept_definition :: "string option"
  concept_property :: "Property list option"

record CodeSystem =
  cs_url :: string
  cs_name :: string
  cs_version :: string
  cs_concept :: "Concept list option"

record Target =
  target_code :: string
  target_display :: string
  target_equivalence :: string
  target_comment :: "string option"

record Element =
  element_code :: string
  element_display :: string
  element_target :: "Target list field"

record Group =
  group_source :: string
  group_target :: string
  group_element :: "Element list field"

record ConceptMap =
  sourceUri :: string
  targetUri :: string
  cm_group :: "Group list field"

record Include =
  include_system :: "string option"

record Compose =
  compose_include :: "Include list option"

record ValueSet =
  vs_url :: string
  vs_name :: string
  vs_compose :: "Compose option"

text \<open>
  The database: each collection read either fails with an error (the driver rejects
  the promise) or yields the documents of the collection in their natural order.
\<close>

record Store =
  codesystems :: "error + CodeSystem list"
  conceptmaps :: "error + ConceptMap list"
  valuesets :: "error + ValueSet list"

section \<open>Concept translation (\<open>FHIRService.translateConcept\<close>)\<close>

record Coding =
  coding_system :: string
  coding_code :: string
  coding_display :: string

text \<open>
  The two shapes of the \<open>Parameters\<close> resource that \<open>translateConcept\<close> builds:
  \<open>result = false\<close> with a message, and \<open>result = true\<close> with one match
  (equivalence and coding).
\<close>

datatype Parameters =
    ResultFalse string
  | ResultMatch string Coding

text \<open>
  \<open>xs?.find(p)\<close>: the optional chaining stops at an absent property; on a truthy
  value that is not an array, \<open>find\<close> is not a function.
\<close>

fun opt_find :: "('a \<Rightarrow> bool) \<Rightarrow> 'a list field \<Rightarrow> error + 'a option" where
  "opt_find p Undefined = Inr None"
| "opt_find p NonIterable = Inl TypeError"
| "opt_find p (Text s) = Inl TypeError"
| "opt_find p (Defined xs) = Inr (find p xs)"

definition find_target :: "ConceptMap \<Rightarrow> string \<Rightarrow> string \<Rightarrow> error + Target option" where
  "find_target conceptMap sourceSystem sourceCode =
     (case opt_find (\<lambda>g. group_source g = sourceSystem) (cm_group conceptMap) of
        Inl e \<Rightarrow> Inl e
      | Inr None \<Rightarrow> Inr None
      | Inr (Some g) \<Rightarrow>
          (case opt_find (\<lambda>e. element_code e = sourceCode) (group_element g) of
             Inl e \<Rightarrow> Inl e
           | Inr None \<Rightarrow> Inr None
           | Inr (Some el) \<Rightarrow>
               opt_find (\<lambda>t. target_equivalence t = ''equivalent'') (element_target el)))"

definition translateConcept :: "Store \<Rightarrow> string \<Rightarrow> string \<Rightarrow> string \<Rightarrow> error + Parameters" where
  "translateConcept db sourceSystem sourceCode targetSystem =
     (case conceptmaps db of
        Inl e \<Rightarrow> Inl e
      | Inr cms \<Rightarrow>
          (case find (\<lambda>m. sourceUri m = sourceSystem \<and> targetUri m = targetSystem) cms of
             None \<Rightarrow> Inr (ResultFalse ''No ConceptMap found for the specified systems'')
           | Some conceptMap \<Rightarrow>
               (case find_target conceptMap sourceSystem sourceCode of
                  Inl e \<Rightarrow> Inl e
                | Inr None \<Rightarrow> Inr (ResultFalse ''No equivalent mapping found'')
                | Inr (Some t) \<Rightarrow>
                    Inr (ResultMatch (target_equivalence t)
                          \<lparr>coding_system = targetSystem,
                           coding_code = target_code t,
                           coding_display = target_display t\<rparr>))))"


section \<open>Value set expansion (\<open>FHIRService.expandValueSet\<close>)\<close>

text \<open>
  The expansion that is returned. The \<open>identifier\<close> (a fresh UUID), the \<open>timestamp\<close>
  and the fields copied unchanged from the ValueSet document other than \<open>url\<close> and
  \<open>name\<close> are left out: no branch of the code reads them. An item of \<open>contains\<close> is a
  \<open>Coding\<close>: system, code and display, nothing else.
\<close>

record Expansion =
  exp_url :: string
  exp_name :: string
  exp_total :: nat
  exp_offset :: nat
  exp_parameter :: "string list"
  exp_contains :: "Coding list"

text \<open>\<open>valueSet.compose?.include?.[0]\<close>\<close>

definition first_include :: "ValueSet \<Rightarrow> Include option" where
  "first_include valueSet =
     (case vs_compose valueSet of
        None \<Rightarrow> None
      | Some c \<Rightarrow>
          (case compose_include c of
             None \<Rightarrow> None
           | Some [] \<Rightarrow> None
           | Some (i # _) \<Rightarrow> Some i))"

definition concept_matches :: "Runtime \<Rightarrow> string \<Rightarrow> Concept \<Rightarrow> bool" where
  "concept_matches rt filterTerm concept =
     (includesStr (toLowerCase rt (concept_display concept)) filterTerm
      \<or> includesStr (toLowerCase rt (concept_code concept)) filterTerm
      \<or> (case concept_definition concept of
            None \<Rightarrow> False
          | Some d \<Rightarrow> includesStr (toLowerCase rt d) filterTerm))"

fun apply_filter ::
  "Runtime \<Rightarrow> string option \<Rightarrow> Concept list \<Rightarrow> Concept list" where
  "apply_filter rt None concepts = concepts"
| "apply_filter rt (Some f) concepts =
     (if f = [] then concepts else filter (concept_matches rt (toLowerCase rt f)) concepts)"

text \<open>
  \<open>count\<close> and \<open>offset\<close> are non-negative integers, so
  \<open>concepts.slice(offset, offset + count)\<close> is \<open>take count (drop offset concepts)\<close>.
\<close>

definition expandValueSet ::
  "Runtime \<Rightarrow> Store \<Rightarrow> string \<Rightarrow> string option \<Rightarrow> nat \<Rightarrow> nat
     \<Rightarrow> error + Expansion" where
  "expandValueSet rt db url flt count offset =
     (case valuesets db of
        Inl e \<Rightarrow> Inl e
      | Inr vss \<Rightarrow>
     (case find (\<lambda>v. vs_url v = url) vss of
        None \<Rightarrow> Inl (Error ''ValueSet not found'')
      | Some valueSet \<Rightarrow>
     (case first_include valueSet of
        None \<Rightarrow> Inl (Error ''ValueSet compose.include not found'')
      | Some inc \<Rightarrow>
     (case include_system inc of
        None \<Rightarrow> Inl (Error ''ValueSet compose.include not found'')
      | Some sys \<Rightarrow>
          if sys = [] then Inl (Error ''ValueSet compose.include not found'')
          else
     (case codesystems db of
        Inl e \<Rightarrow> Inl e
      | Inr css \<Rightarrow>
     (case find (\<lambda>c. cs_url c = sys) css of
        None \<Rightarrow> Inl (Error ''Referenced CodeSystem not found'')
      | Some codeSystem \<Rightarrow>
          (let concepts = (case cs_concept codeSystem of None \<Rightarrow> [] | Some cs \<Rightarrow> cs);
               concepts = apply_filter rt flt concepts;
               total = length concepts;
               concepts = take count (drop offset concepts)
           in Inr \<lparr>exp_url = vs_url valueSet,
                    exp_name = vs_name valueSet,
                    exp_total = total,
                    exp_offset = offset,
                    exp_parameter = (case flt of None \<Rightarrow> [] | Some f \<Rightarrow> if f = [] then [] else [f]),
                    exp_contains =
                      map (\<lambda>concept. \<lparr>coding_system = sys,
                                        coding_code = concept_code concept,
                                        coding_display = concept_display concept\<rparr>) concepts\<rparr>)))))))"

section \<open>Search index entries (\<open>SearchService.createSearchEntry\<close>)\<close>

record Mapping =
  targetSystem :: string
  targetCode :: string
  targetDisplay :: string
  equivalence :: string
  comment :: "string option"

record SearchEntry =
  system :: string
  systemType :: string
  systemName :: string
  code :: string
  display :: string
  entry_definition :: string
  entry_searchTerms :: "string list"
  properties :: "Property list"
  mappings :: "Mapping list"

text \<open>
  \<open>[...new Set(xs)]\<close>: a Set keeps its members in insertion order and ignores the
  insertion of a member it already has.
\<close>

definition new_Set :: "'a list \<Rightarrow> 'a list" where
  "new_Set xs = foldl (\<lambda>seen x. if x \<in> set seen then seen else seen @ [x]) [] xs"

text \<open>The lower-cased value of an optional string, when it is truthy.\<close>

fun lowered_if_truthy :: "Runtime \<Rightarrow> string option \<Rightarrow> string list" where
  "lowered_if_truthy rt None = []"
| "lowered_if_truthy rt (Some s) = (if s = [] then [] else [toLowerCase rt s])"

definition property_terms :: "Runtime \<Rightarrow> Property \<Rightarrow> string list" where
  "property_terms rt prop =
     lowered_if_truthy rt (valueString prop) @ lowered_if_truthy rt (valueCode prop)"

definition classify_system :: "string \<Rightarrow> string" where
  "classify_system url =
     (if includesStr url ''namaste'' then ''namaste''
      else if includesStr url ''traditional-medicine'' then ''icd11-tm2''
      else if includesStr url ''icd'' then ''icd11-bio''
      else ''unknown'')"

definition createSearchEntry ::
  "Runtime \<Rightarrow> Concept \<Rightarrow> CodeSystem \<Rightarrow> SearchEntry" where
  "createSearchEntry rt concept codeSystem =
     (let terms = [toLowerCase rt (concept_code concept),
                   toLowerCase rt (concept_display concept)]
                  @ lowered_if_truthy rt (concept_definition concept);
          terms = terms @ (case concept_property concept of
                             None \<Rightarrow> []
                           | Some props \<Rightarrow> concat (map (property_terms rt) props))
      in \<lparr>system = cs_url codeSystem,
          systemType = classify_system (cs_url codeSystem),
          systemName = cs_name codeSystem,
          code = concept_code concept,
          display = concept_display concept,
          entry_definition = (case concept_definition concept of None \<Rightarrow> [] | Some d \<Rightarrow> d),
          entry_searchTerms = new_Set terms,
          properties = (case concept_property concept of None \<Rightarrow> [] | Some props \<Rightarrow> props),
          mappings = []\<rparr>)"

section \<open>Fuzzy matching (\<open>levenshteinDistance\<close>, \<open>calculateFuzzyScore\<close>)\<close>

text \<open>
  The matrix of the source has one row per character of \<open>str2\<close> plus the row
  \<open>0, 1, \<dots>, |str1|\<close>. Row \<open>i\<close> starts with \<open>i\<close>; every other cell is computed from
  the cell to its upper left (\<open>diag\<close>), the cell above (\<open>up\<close>) and the cell to its left.
  \<open>fill_row\<close> computes the cells of one row after the first, \<open>matrix_rows\<close> runs over
  the characters of \<open>str2\<close> and returns the last row, whose last cell is the distance.
\<close>

fun fill_row :: "char \<Rightarrow> string \<Rightarrow> nat list \<Rightarrow> nat \<Rightarrow> nat list" where
  "fill_row c (a # as) (diag # up # prev) left =
     (let v = (if c = a then diag else min (diag + 1) (min (left + 1) (up + 1)))
      in v # fill_row c as (up # prev) v)"
| "fill_row c _ _ left = []"

fun matrix_rows :: "string \<Rightarrow> string \<Rightarrow> nat \<Rightarrow> nat list \<Rightarrow> nat list" where
  "matrix_rows str1 [] i prev = prev"
| "matrix_rows str1 (c # cs) i prev = matrix_rows str1 cs (Suc i) (i # fill_row c str1 prev i)"

definition levenshteinDistance :: "string \<Rightarrow> string \<Rightarrow> nat" where
  "levenshteinDistance str1 str2 = last (matrix_rows str1 str2 1 [0..<Suc (length str1)])"

text \<open>
  A similarity is a ratio of two lengths and is modelled as an exact rational;
  \<open>None\<close> is \<open>NaN\<close>, the value of \<open>1 - 0 / 0\<close> when both strings are empty.
  \<open>Math.max\<close> returns \<open>NaN\<close> as soon as one argument is \<open>NaN\<close>.
\<close>

definition similarity :: "string \<Rightarrow> string \<Rightarrow> rat option" where
  "similarity searchTerm target =
     (let distance = levenshteinDistance searchTerm target;
          maxLength = max (length searchTerm) (length target)
      in if maxLength = 0 then None else Some (1 - of_nat distance / of_nat maxLength))"

fun Math_max :: "rat option \<Rightarrow> rat option \<Rightarrow> rat option" where
  "Math_max (Some a) (Some b) = Some (max a b)"
| "Math_max _ _ = None"

definition calculateFuzzyScore ::
  "Runtime \<Rightarrow> string \<Rightarrow> SearchEntry \<Rightarrow> rat option" where
  "calculateFuzzyScore rt searchTerm entry =
     foldl (\<lambda>maxScore target. Math_max maxScore (similarity searchTerm target)) (Some 0)
       [toLowerCase rt (display entry), toLowerCase rt (code entry)]"

section \<open>Relevance scoring (\<open>calculateRelevanceScore\<close>)\<close>

text \<open>
  The function updates a local \<open>score\<close> in six consecutive blocks. Each block is a
  function from the score before it to the score after it.
\<close>

definition code_block :: "Runtime \<Rightarrow> string \<Rightarrow> SearchEntry \<Rightarrow> int \<Rightarrow> int" where
  "code_block rt searchTerm entry score =
     (if toLowerCase rt (code entry) = searchTerm then score + 100
      else if includesStr (toLowerCase rt (code entry)) searchTerm then score + 50
      else score)"

definition display_block :: "Runtime \<Rightarrow> string \<Rightarrow> SearchEntry \<Rightarrow> int \<Rightarrow> int" where
  "display_block rt searchTerm entry score =
     (if toLowerCase rt (display entry) = searchTerm then score + 80
      else if startsWith (toLowerCase rt (display entry)) searchTerm then score + 60
      else if includesStr (toLowerCase rt (display entry)) searchTerm then score + 40
      else score)"

definition definition_block ::
  "Runtime \<Rightarrow> string \<Rightarrow> SearchEntry \<Rightarrow> int \<Rightarrow> int" where
  "definition_block rt searchTerm entry score =
     (if entry_definition entry \<noteq> []
         \<and> includesStr (toLowerCase rt (entry_definition entry)) searchTerm
      then score + 20 else score)"

definition property_block :: "Runtime \<Rightarrow> string \<Rightarrow> SearchEntry \<Rightarrow> int \<Rightarrow> int" where
  "property_block rt searchTerm entry score =
     foldl (\<lambda>score term.
              if includesStr term searchTerm
                 \<and> term \<noteq> toLowerCase rt (code entry)
                 \<and> term \<noteq> toLowerCase rt (display entry)
              then score + 10 else score)
       score (entry_searchTerms entry)"

text \<open>
  The fuzzy block carries, next to the score, the number of calls of
  \<open>calculateFuzzyScore\<close> made so far.
\<close>

definition fuzzy_block ::
  "Runtime \<Rightarrow> string \<Rightarrow> SearchEntry \<Rightarrow> bool \<Rightarrow> int \<times> nat \<Rightarrow> int \<times> nat" where
  "fuzzy_block rt searchTerm entry fuzzy st =
     (case st of (score, calls) \<Rightarrow>
        if fuzzy \<and> score = 0 then
          (case calculateFuzzyScore rt searchTerm entry of
             None \<Rightarrow> (score, Suc calls)
           | Some fuzzyScore \<Rightarrow>
               if fuzzyScore > 7 / 10 then (score + \<lfloor>fuzzyScore * 30\<rfloor>, Suc calls)
               else (score, Suc calls))
        else (score, calls))"

definition boost_block :: "SearchEntry \<Rightarrow> int \<Rightarrow> int" where
  "boost_block entry score = (if systemType entry = ''namaste'' then score + 5 else score)"

definition calculateRelevanceScore_traced ::
  "Runtime \<Rightarrow> string \<Rightarrow> SearchEntry \<Rightarrow> bool \<Rightarrow> int \<times> nat" where
  "calculateRelevanceScore_traced rt searchTerm entry fuzzy =
     (let score = 0;
          score = code_block rt searchTerm entry score;
          score = display_block rt searchTerm entry score;
          score = definition_block rt searchTerm entry score;
          score = property_block rt searchTerm entry score;
          (score, calls) = fuzzy_block rt searchTerm entry fuzzy (score, 0);
          score = boost_block entry score
      in (score, calls))"

definition calculateRelevanceScore ::
  "Runtime \<Rightarrow> string \<Rightarrow> SearchEntry \<Rightarrow> bool \<Rightarrow> int" where
  "calculateRelevanceScore rt searchTerm entry fuzzy =
     fst (calculateRelevanceScore_traced rt searchTerm entry fuzzy)"

definition fuzzy_calls :: "Runtime \<Rightarrow> string \<Rightarrow> SearchEntry \<Rightarrow> bool \<Rightarrow> nat" where
  "fuzzy_calls rt searchTerm entry fuzzy =
     snd (calculateRelevanceScore_traced rt searchTerm entry fuzzy)"

text \<open>
  \<open>match_score\<close> is the value of \<open>score\<close> when control reaches the fuzzy block:
  what the code, display, definition and search-term blocks have added up.
\<close>

definition match_score :: "Runtime \<Rightarrow> string \<Rightarrow> SearchEntry \<Rightarrow> int" where
  "match_score rt searchTerm entry =
     property_block rt searchTerm entry
       (definition_block rt searchTerm entry
          (display_block rt searchTerm entry (code_block rt searchTerm entry 0)))"

section \<open>Search (\<open>SearchService.searchTerms\<close>)\<close>

text \<open>
  The search index is a JavaScript \<open>Map\<close> from \<open>url|code\<close> to the entry: an
  association list in insertion order. \<open>map_of\<close> is \<open>Map.get\<close> and \<open>AList.update\<close> is
  \<open>Map.set\<close> (a present key keeps its place, a new key goes to the end).
\<close>

type_synonym Index = "(string \<times> SearchEntry) list"

record Result =
  result_entry :: SearchEntry
  result_score :: int

text \<open>
  The bundle keeps the total, the entries with their scores, the text of the issue of
  an empty bundle, and the query echoed in the self link. Fresh ids and timestamps are
  left out.
\<close>

record Bundle =
  bundle_total :: nat
  bundle_entry :: "Result list"
  bundle_issue :: "string option"
  bundle_link_query :: "string option"

definition createSearchBundle :: "Result list \<Rightarrow> string \<Rightarrow> nat \<Rightarrow> Bundle" where
  "createSearchBundle results query n =
     \<lparr>bundle_total = n, bundle_entry = results, bundle_issue = None,
       bundle_link_query = Some query\<rparr>"

definition createEmptySearchBundle :: "string \<Rightarrow> Bundle" where
  "createEmptySearchBundle message =
     \<lparr>bundle_total = 0, bundle_entry = [], bundle_issue = Some message,
       bundle_link_query = None\<rparr>"

record SearchOptions =
  opt_systemFilter :: "string option"
  opt_systemType :: "string option"
  opt_limit :: "int option"
  opt_fuzzy :: "bool option"

text \<open>The two pre-filters of the scan; each makes the loop \<open>continue\<close>.\<close>

fun systemFilter_rejects :: "string option \<Rightarrow> SearchEntry \<Rightarrow> bool" where
  "systemFilter_rejects None entry = False"
| "systemFilter_rejects (Some f) entry = (f \<noteq> [] \<and> \<not> includesStr (system entry) f)"

fun systemType_rejects :: "string option \<Rightarrow> SearchEntry \<Rightarrow> bool" where
  "systemType_rejects None entry = False"
| "systemType_rejects (Some t) entry = (t \<noteq> [] \<and> systemType entry \<noteq> t)"

text \<open>
  The scan of the index. \<open>results\<close> is the array built so far; the \<open>break\<close> is
  tested after every entry that passed the pre-filters.
\<close>

fun scan ::
  "Runtime \<Rightarrow> string option \<Rightarrow> string option \<Rightarrow> int \<Rightarrow> bool \<Rightarrow> string \<Rightarrow> Index
     \<Rightarrow> Result list
     \<Rightarrow> Result list" where
  "scan rt sf st limit fuzzy searchTerm [] results = results"
| "scan rt sf st limit fuzzy searchTerm ((key, e) # rest) results =
     (if systemFilter_rejects sf e then scan rt sf st limit fuzzy searchTerm rest results
      else if systemType_rejects st e then scan rt sf st limit fuzzy searchTerm rest results
      else
        (let s = calculateRelevanceScore rt searchTerm e fuzzy;
             results = (if s > 0 then results @ [\<lparr>result_entry = e, result_score = s\<rparr>] else results)
         in if int (length results) \<ge> limit * 3 then results
            else scan rt sf st limit fuzzy searchTerm rest results))"

text \<open>
  \<open>results.sort((a, b) => b.score - a.score)\<close>: the sort of an array is stable, and
  so is \<open>sort_key\<close>. \<open>results.slice(0, limit)\<close> counts a negative \<open>limit\<close> from
  the end.
\<close>

definition sort_by_score :: "Result list \<Rightarrow> Result list" where
  "sort_by_score results = sort_key (\<lambda>r. - result_score r) results"

definition slice0 :: "'a list \<Rightarrow> int \<Rightarrow> 'a list" where
  "slice0 xs n = (if n < 0 then take (nat (int (length xs) + n)) xs else take (nat n) xs)"

definition searchTerms :: "Runtime \<Rightarrow> Index \<Rightarrow> string \<Rightarrow> SearchOptions \<Rightarrow> Bundle" where
  "searchTerms rt searchIndex query options =
     (let systemFilter = opt_systemFilter options;
          systemType = opt_systemType options;
          limit = (case opt_limit options of None \<Rightarrow> 20 | Some l \<Rightarrow> l);
          fuzzy = (case opt_fuzzy options of None \<Rightarrow> False | Some f \<Rightarrow> f);
          searchTerm = trim rt (toLowerCase rt query)
      in if length searchTerm < 2 then createEmptySearchBundle ''Query too short''
         else
           (let results = scan rt systemFilter systemType limit fuzzy searchTerm searchIndex [];
                limitedResults = slice0 (sort_by_score results) limit
            in createSearchBundle limitedResults query (length results)))"

section \<open>Index build (\<open>buildSearchIndex\<close>, \<open>enhanceWithMappings\<close>)\<close>










record SearchService =
  searchIndex :: Index
  indexVersion :: "string option"





section \<open>Definitions that follow the wording of the specification\<close>

text \<open>
  The display rule: 80 for an exact match, else 60 for a prefix match, else 40 for a
  substring match, else nothing.
\<close>

definition spec_display_increment :: "Runtime \<Rightarrow> string \<Rightarrow> string \<Rightarrow> int" where
  "spec_display_increment rt query display_text =
     (if toLowerCase rt display_text = query then 80
      else if startsWith (toLowerCase rt display_text) query then 60
      else if includesStr (toLowerCase rt display_text) query then 40
      else 0)"

text \<open>
  The fuzzy rule: when the best similarity exceeds 0.7, it contributes
  \<open>floor (similarity * 30)\<close>.
\<close>

definition spec_fuzzy_contribution :: "Runtime \<Rightarrow> string \<Rightarrow> SearchEntry \<Rightarrow> int" where
  "spec_fuzzy_contribution rt searchTerm entry =
     (case calculateFuzzyScore rt searchTerm entry of
        None \<Rightarrow> 0
      | Some best \<Rightarrow> if best > 7 / 10 then \<lfloor>best * 30\<rfloor> else 0)"

text \<open>
  The entries that a scan without early stop would collect: those that pass the
  pre-filters and score above 0, in the order of the index, each with its score.
\<close>

fun hits ::
  "Runtime \<Rightarrow> string option \<Rightarrow> string option \<Rightarrow> bool \<Rightarrow> string \<Rightarrow> Index
     \<Rightarrow> Result list" where
  "hits rt sf st fuzzy searchTerm [] = []"
| "hits rt sf st fuzzy searchTerm ((key, e) # rest) =
     (if \<not> systemFilter_rejects sf e \<and> \<not> systemType_rejects st e
         \<and> 0 < calculateRelevanceScore rt searchTerm e fuzzy
      then \<lparr>result_entry = e, result_score = calculateRelevanceScore rt searchTerm e fuzzy\<rparr>
           # hits rt sf st fuzzy searchTerm rest
      else hits rt sf st fuzzy searchTerm rest)"




text \<open>
  Assignment, not accumulation: after a run of assignments to one entry, its mappings
  are those of the last assignment.
\<close>

definition attach :: "(string \<times> Mapping list) list \<Rightarrow> SearchEntry \<Rightarrow> SearchEntry" where
  "attach ps e = (if ps = [] then e else e\<lparr>mappings := snd (last ps)\<rparr>)"

section \<open>Example data\<close>

text \<open>
  On ASCII text the runtime lower-cases \<open>A\<close> to \<open>Z\<close> and trims TAB, LF, VT, FF, CR
  and SPACE. The examples use ASCII text only, for which \<open>ascii_runtime\<close> computes
  what the runtime computes.
\<close>

definition ascii_lower_char :: "char \<Rightarrow> char" where
  "ascii_lower_char c =
     (let n = (of_char c :: nat) in if 65 \<le> n \<and> n \<le> 90 then char_of (n + 32) else c)"

definition ascii_is_space :: "char \<Rightarrow> bool" where
  "ascii_is_space c = ((of_char c :: nat) \<in> {9, 10, 11, 12, 13, 32})"

definition ascii_runtime :: Runtime where
  "ascii_runtime =
     \<lparr>toLowerCase = map ascii_lower_char,
      trim = (\<lambda>s. rev (dropWhile ascii_is_space (rev (dropWhile ascii_is_space s))))\<rparr>"

text \<open>
  The data of the worked examples below. Code system \<open>A\<close> holds the concept
  \<open>AAB\<close>, \<open>Vata Jwara\<close>; ConceptMaps lead from \<open>A\<close> to the systems \<open>B\<close> and
  \<open>C\<close>.
\<close>

definition ex_target :: Target where
  "ex_target = \<lparr>target_code = ''TM2.A0'', target_display = ''Disorders of Vata dosha'',
     target_equivalence = ''equivalent'', target_comment = None\<rparr>"

definition ex_element :: Element where
  "ex_element = \<lparr>element_code = ''AAB'', element_display = ''Vata Jwara'',
     element_target = Defined [ex_target]\<rparr>"

definition ex_group_empty :: Group where
  "ex_group_empty = \<lparr>group_source = ''A'', group_target = ''B'', group_element = Defined []\<rparr>"

definition ex_group :: Group where
  "ex_group = \<lparr>group_source = ''A'', group_target = ''B'', group_element = Defined [ex_element]\<rparr>"

definition ex_map_two_groups :: ConceptMap where
  "ex_map_two_groups = \<lparr>sourceUri = ''A'', targetUri = ''B'',
     cm_group = Defined [ex_group_empty, ex_group]\<rparr>"

definition ex_map :: ConceptMap where
  "ex_map = \<lparr>sourceUri = ''A'', targetUri = ''B'', cm_group = Defined [ex_group]\<rparr>"

definition ex_concept :: Concept where
  "ex_concept = \<lparr>concept_code = ''AAB'', concept_display = ''Vata Jwara'',
     concept_definition = Some ''Fever of vata origin'', concept_property = None\<rparr>"

definition ex_concept2 :: Concept where
  "ex_concept2 = \<lparr>concept_code = ''AAC'', concept_display = ''Pitta Jwara'',
     concept_definition = None, concept_property = None\<rparr>"

definition ex_concept3 :: Concept where
  "ex_concept3 = \<lparr>concept_code = ''AAD'', concept_display = ''Kasa'',
     concept_definition = Some ''Cough'', concept_property = None\<rparr>"

definition ex_codeSystem :: CodeSystem where
  "ex_codeSystem = \<lparr>cs_url = ''A'', cs_name = ''Source A'', cs_version = ''1'',
     cs_concept = Some [ex_concept, ex_concept2, ex_concept3]\<rparr>"

definition ex_valueSet :: ValueSet where
  "ex_valueSet = \<lparr>vs_url = ''VS'', vs_name = ''All of A'',
     vs_compose = Some \<lparr>compose_include = Some [\<lparr>include_system = Some ''A''\<rparr>]\<rparr>\<rparr>"

definition ex_options :: SearchOptions where
  "ex_options = \<lparr>opt_systemFilter = None, opt_systemType = None, opt_limit = Some 1,
     opt_fuzzy = Some True\<rparr>"

definition ex_store :: "ConceptMap list \<Rightarrow> Store" where
  "ex_store cms = \<lparr>codesystems = Inr [ex_codeSystem], conceptmaps = Inr cms,
     valuesets = Inr [ex_valueSet]\<rparr>"

text \<open>ConceptMaps in which the lookup ends early, and a store without CodeSystems.\<close>

definition ex_map_other_source :: ConceptMap where
  "ex_map_other_source = ex_map\<lparr>cm_group := Defined [ex_group\<lparr>group_source := ''X''\<rparr>]\<rparr>"

definition ex_map_no_elements :: ConceptMap where
  "ex_map_no_elements = ex_map\<lparr>cm_group := Defined [ex_group\<lparr>group_element := Undefined\<rparr>]\<rparr>"

definition ex_map_no_targets :: ConceptMap where
  "ex_map_no_targets =
     ex_map\<lparr>cm_group :=
       Defined [ex_group\<lparr>group_element :=
         Defined [ex_element\<lparr>element_target := Undefined\<rparr>]\<rparr>]\<rparr>"

definition ex_store_dangling :: Store where
  "ex_store_dangling = \<lparr>codesystems = Inr [], conceptmaps = Inr [], valuesets = Inr [ex_valueSet]\<rparr>"

text \<open>Index entries for the scoring and search examples.\<close>

definition ex_icd :: CodeSystem where
  "ex_icd = \<lparr>cs_url = ''urn:icd'', cs_name = ''B'', cs_version = ''1'', cs_concept = None\<rparr>"

definition ex_namaste :: CodeSystem where
  "ex_namaste = \<lparr>cs_url = ''urn:namaste'', cs_name = ''N'', cs_version = ''1'', cs_concept = None\<rparr>"

definition ex_vat1 :: SearchEntry where
  "ex_vat1 = createSearchEntry ascii_runtime
     \<lparr>concept_code = ''VAT1'', concept_display = ''Vata disorder'',
      concept_definition = None, concept_property = None\<rparr> ex_icd"

definition ex_vata :: SearchEntry where
  "ex_vata = createSearchEntry ascii_runtime
     \<lparr>concept_code = ''X1'', concept_display = ''Vata'',
      concept_definition = None, concept_property = None\<rparr> ex_icd"

definition ex_kapha :: SearchEntry where
  "ex_kapha = createSearchEntry ascii_runtime
     \<lparr>concept_code = ''SR11'', concept_display = ''Kapha'',
      concept_definition = None, concept_property = None\<rparr> ex_namaste"

definition ex_code_exact :: Concept where
  "ex_code_exact = \<lparr>concept_code = ''VATA'', concept_display = ''Jwara'',
      concept_definition = Some ''vata'', concept_property = None\<rparr>"

definition ex_code_longer :: Concept where
  "ex_code_longer = \<lparr>concept_code = ''VATA1'', concept_display = ''Jwara'',
      concept_definition = Some ''vata'', concept_property = None\<rparr>"

definition ex_index :: Index where
  "ex_index = [(''urn:icd|VAT1'', ex_vat1), (''urn:icd|X1'', ex_vata),
               (''urn:namaste|SR11'', ex_kapha),
               (''urn:icd|VATA'', createSearchEntry ascii_runtime ex_code_exact ex_icd)]"

definition ex_limit :: "int \<Rightarrow> SearchOptions" where
  "ex_limit n = \<lparr>opt_systemFilter = None, opt_systemType = None, opt_limit = Some n,
     opt_fuzzy = None\<rparr>"


definition ex_map_bio :: ConceptMap where
  "ex_map_bio = \<lparr>sourceUri = ''A'', targetUri = ''C'',
     cm_group = Defined [\<lparr>group_source = ''A'', group_target = ''C'',
       group_element = Defined [\<lparr>element_code = ''AAB'', element_display = ''Vata Jwara'',
         element_target = Defined [\<lparr>target_code = ''1A00'', target_display = ''Cholera'',
           target_equivalence = ''relatedto'', target_comment = None\<rparr>]\<rparr>]\<rparr>]\<rparr>"





section \<open>Translation\<close>

lemma find_SomeD: "find P xs = Some x \<Longrightarrow> P x"
  by (auto simp: find_Some_iff)

lemma opt_find_SomeD: "opt_find P f = Inr (Some x) \<Longrightarrow> P x"
  by (cases f) (auto dest: find_SomeD)

lemma find_target_equivalent:
  "find_target cm s c = Inr (Some t) \<Longrightarrow> target_equivalence t = ''equivalent''"
  unfolding find_target_def
  by (auto split: sum.splits option.splits dest: opt_find_SomeD)

lemma translateConcept_match_equivalent:
  assumes "translateConcept db s c tgt = Inr (ResultMatch eq coding)"
  shows "eq = ''equivalent''"
proof (cases "conceptmaps db")
  case (Inl e)
  with assms show ?thesis by (simp add: translateConcept_def)
next
  case cms: (Inr cms)
  show ?thesis
  proof (cases "find (\<lambda>m. sourceUri m = s \<and> targetUri m = tgt) cms")
    case None
    with assms cms show ?thesis by (simp add: translateConcept_def)
  next
    case cm: (Some cm)
    show ?thesis
    proof (cases "find_target cm s c")
      case (Inl e)
      with assms cms cm show ?thesis by (simp add: translateConcept_def)
    next
      case r: (Inr r)
      show ?thesis
      proof (cases r)
        case None
        with assms cms cm r show ?thesis by (simp add: translateConcept_def)
      next
        case (Some t)
        with r have "target_equivalence t = ''equivalent''"
          by (simp add: find_target_equivalent)
        with assms cms cm r Some show ?thesis by (simp add: translateConcept_def)
      qed
    qed
  qed
qed

text \<open>
  C1 (amended). Let the store be readable, let \<open>cm\<close> be the first ConceptMap whose
  (sourceUri, targetUri) is the requested pair, \<open>g\<close> its first group whose source is
  the source system and \<open>el\<close> the first element of \<open>g\<close> whose code is the source
  code. If \<open>t\<close> is the first target of \<open>el\<close> with equivalence \<open>equivalent\<close>,
  translation succeeds with exactly the code and display of \<open>t\<close>, equivalence
  \<open>equivalent\<close> and the requested target system; if \<open>el\<close> has no such target, the
  result is \<open>result = false\<close>. A successful translation never carries another
  equivalence.
\<close>

theorem translateConcept_first_match:
  assumes "conceptmaps db = Inr cms"
    and "find (\<lambda>m. sourceUri m = s \<and> targetUri m = tgt) cms = Some cm"
    and "cm_group cm = Defined gs"
    and "find (\<lambda>g. group_source g = s) gs = Some g"
    and "group_element g = Defined els"
    and "find (\<lambda>e. element_code e = c) els = Some el"
    and "element_target el = Defined ts"
  shows "(find (\<lambda>t. target_equivalence t = ''equivalent'') ts = Some t \<longrightarrow>
            translateConcept db s c tgt =
              Inr (ResultMatch ''equivalent''
                    \<lparr>coding_system = tgt, coding_code = target_code t,
                     coding_display = target_display t\<rparr>))
       \<and> (find (\<lambda>t. target_equivalence t = ''equivalent'') ts = None \<longrightarrow>
            translateConcept db s c tgt = Inr (ResultFalse ''No equivalent mapping found''))
       \<and> (\<forall>eq coding. translateConcept db s c tgt = Inr (ResultMatch eq coding) \<longrightarrow>
            eq = ''equivalent'')"
proof (intro conjI impI allI)
  assume t: "find (\<lambda>t. target_equivalence t = ''equivalent'') ts = Some t"
  then have "target_equivalence t = ''equivalent''"
    by (rule find_SomeD)
  with assms t show "translateConcept db s c tgt =
      Inr (ResultMatch ''equivalent''
        \<lparr>coding_system = tgt, coding_code = target_code t, coding_display = target_display t\<rparr>)"
    by (simp add: translateConcept_def find_target_def)
next
  assume "find (\<lambda>t. target_equivalence t = ''equivalent'') ts = None"
  with assms show "translateConcept db s c tgt = Inr (ResultFalse ''No equivalent mapping found'')"
    by (simp add: translateConcept_def find_target_def)
next
  fix eq coding
  assume "translateConcept db s c tgt = Inr (ResultMatch eq coding)"
  then show "eq = ''equivalent''"
    by (rule translateConcept_match_equivalent)
qed

text \<open>
  The example of the specification: \<open>AAB\<close> of system \<open>A\<close> translates to
  \<open>TM2.A0\<close> of system \<open>B\<close>.
\<close>

theorem translateConcept_first_match_witness:
  "translateConcept (ex_store [ex_map]) ''A'' ''AAB'' ''B'' =
     Inr (ResultMatch ''equivalent''
           \<lparr>coding_system = ''B'', coding_code = ''TM2.A0'',
            coding_display = ''Disorders of Vata dosha''\<rparr>)"
proof -
  have 1: "conceptmaps (ex_store [ex_map]) = Inr [ex_map]"
    by (simp add: ex_store_def)
  have 2: "find (\<lambda>m. sourceUri m = ''A'' \<and> targetUri m = ''B'') [ex_map] = Some ex_map"
    by code_simp
  have 3: "cm_group ex_map = Defined [ex_group]"
    by (simp add: ex_map_def)
  have 4: "find (\<lambda>g. group_source g = ''A'') [ex_group] = Some ex_group"
    by code_simp
  have 5: "group_element ex_group = Defined [ex_element]"
    by (simp add: ex_group_def)
  have 6: "find (\<lambda>e. element_code e = ''AAB'') [ex_element] = Some ex_element"
    by code_simp
  have 7: "element_target ex_element = Defined [ex_target]"
    by (simp add: ex_element_def)
  have 8: "find (\<lambda>t. target_equivalence t = ''equivalent'') [ex_target] = Some ex_target"
    by code_simp
  have 9: "target_code ex_target = ''TM2.A0''"
    and 10: "target_display ex_target = ''Disorders of Vata dosha''"
    by (simp_all add: ex_target_def)
  from translateConcept_first_match [OF 1 2 3 4 5 6 7, of ex_target]
  have "translateConcept (ex_store [ex_map]) ''A'' ''AAB'' ''B'' =
      Inr (ResultMatch ''equivalent''
            \<lparr>coding_system = ''B'', coding_code = target_code ex_target,
             coding_display = target_display ex_target\<rparr>)"
    using 8 by blast
  then show ?thesis
    unfolding 9 10 .
qed

text \<open>
  C1 as first stated speaks of any ConceptMap, group and element of the store with
  the requested keys. Here a ConceptMap has two groups of the same source, and only
  the second holds the code, with an \<open>equivalent\<close> target. The store contains all that
  the claim asks for, and translation answers \<open>result = false\<close>: the lookup takes
  the first group of that source and goes no further.
\<close>

theorem translateConcept_any_match_counterexample:
  "ex_map_two_groups \<in> set [ex_map_two_groups]
   \<and> sourceUri ex_map_two_groups = ''A'' \<and> targetUri ex_map_two_groups = ''B''
   \<and> cm_group ex_map_two_groups = Defined [ex_group_empty, ex_group]
   \<and> ex_group \<in> set [ex_group_empty, ex_group] \<and> group_source ex_group = ''A''
   \<and> group_element ex_group = Defined [ex_element]
   \<and> ex_element \<in> set [ex_element] \<and> element_code ex_element = ''AAB''
   \<and> element_target ex_element = Defined [ex_target]
   \<and> ex_target \<in> set [ex_target] \<and> target_equivalence ex_target = ''equivalent''
   \<and> conceptmaps (ex_store [ex_map_two_groups]) = Inr [ex_map_two_groups]
   \<and> translateConcept (ex_store [ex_map_two_groups]) ''A'' ''AAB'' ''B'' =
       Inr (ResultFalse ''No equivalent mapping found'')"
  by code_simp

section \<open>Expansion\<close>

text \<open>
  \<open>startsWith\<close> and \<open>includesStr\<close> decide the prefix and the contiguous-sublist
  relation of the list library.
\<close>

lemma startsWith_prefix: "startsWith s sub \<longleftrightarrow> prefix sub s"
  by (induction s sub rule: startsWith.induct) auto

lemma includesStr_sublist: "includesStr s sub \<longleftrightarrow> sublist sub s"
  by (induction s) (simp_all add: startsWith_prefix sublist_Cons_right)

lemma concept_matches_sublist:
  "concept_matches rt filterTerm =
     (\<lambda>c. sublist filterTerm (toLowerCase rt (concept_display c))
        \<or> sublist filterTerm (toLowerCase rt (concept_code c))
        \<or> (case concept_definition c of
              None \<Rightarrow> False
            | Some d \<Rightarrow> sublist filterTerm (toLowerCase rt d)))"
  unfolding concept_matches_def includesStr_sublist ..

lemma apply_filter_sublist:
  "apply_filter rt flt concepts =
     (case flt of
        None \<Rightarrow> concepts
      | Some f \<Rightarrow>
          if f = [] then concepts
          else filter
                 (\<lambda>c. sublist (toLowerCase rt f) (toLowerCase rt (concept_display c))
                    \<or> sublist (toLowerCase rt f) (toLowerCase rt (concept_code c))
                    \<or> (case concept_definition c of
                          None \<Rightarrow> False
                        | Some d \<Rightarrow> sublist (toLowerCase rt f) (toLowerCase rt d)))
                 concepts)"
  by (cases flt) (simp_all only: apply_filter.simps option.case concept_matches_sublist)

lemma length_slice:
  "length (take count (drop offset xs)) =
     (if offset < length xs then min count (length xs - offset) else 0)"
  by auto

text \<open>
  C3. Let the ValueSet of the uri be found, let \<open>inc\<close> be its first include and
  \<open>cs\<close> the CodeSystem that \<open>inc\<close> names. Let \<open>kept\<close> be the concepts of \<open>cs\<close> if no
  filter is given, and otherwise those concepts whose display, code or definition,
  lower-cased, contains the lower-cased filter as a contiguous substring. For
  non-negative \<open>count\<close> and \<open>offset\<close> the expansion is returned; its total is the
  number of concepts in \<open>kept\<close>, before pagination; the length of \<open>contains\<close> is
  \<open>min count (total - offset)\<close> when \<open>offset < total\<close> and \<open>0\<close> otherwise; and
  \<open>contains\<close> holds, for the concepts of the page in order, the system of the
  include, the code and the display, and nothing else.
\<close>

theorem expandValueSet_pagination:
  assumes "valuesets db = Inr vss"
    and "find (\<lambda>v. vs_url v = url) vss = Some vs"
    and "vs_compose vs = Some cmp"
    and "compose_include cmp = Some (inc # incs)"
    and "include_system inc = Some sys" and "sys \<noteq> []"
    and "codesystems db = Inr css"
    and "find (\<lambda>c. cs_url c = sys) css = Some cs"
    and "concepts = (case cs_concept cs of None \<Rightarrow> [] | Some xs \<Rightarrow> xs)"
    and "kept =
          (case flt of
             None \<Rightarrow> concepts
           | Some f \<Rightarrow>
               if f = [] then concepts
               else filter
                      (\<lambda>c. sublist (toLowerCase rt f) (toLowerCase rt (concept_display c))
                         \<or> sublist (toLowerCase rt f) (toLowerCase rt (concept_code c))
                         \<or> (case concept_definition c of
                               None \<Rightarrow> False
                             | Some d \<Rightarrow> sublist (toLowerCase rt f) (toLowerCase rt d)))
                      concepts)"
  shows "\<exists>ex. expandValueSet rt db url flt count offset = Inr ex
           \<and> exp_total ex = length kept
           \<and> length (exp_contains ex) =
               (if offset < exp_total ex then min count (exp_total ex - offset) else 0)
           \<and> exp_contains ex =
               map (\<lambda>c. \<lparr>coding_system = sys, coding_code = concept_code c,
                          coding_display = concept_display c\<rparr>)
                 (take count (drop offset kept))"
proof -
  have inc: "first_include vs = Some inc"
    using assms(3,4) by (simp add: first_include_def)
  have kept: "kept = apply_filter rt flt (case cs_concept cs of None \<Rightarrow> [] | Some xs \<Rightarrow> xs)"
    unfolding assms(10) assms(9) apply_filter_sublist ..
  show ?thesis
    using assms(1,2,5-8) inc
    by (simp add: expandValueSet_def Let_def length_slice min.commute kept)
qed

text \<open>
  The code system holds three concepts. Two of them pass the filter \<open>JWARA\<close>, by
  their displays; the page of size 1 at offset 1 holds the second of the two.
\<close>

theorem expandValueSet_pagination_witness:
  "length (case cs_concept ex_codeSystem of None \<Rightarrow> [] | Some xs \<Rightarrow> xs) = 3
   \<and> (case expandValueSet ascii_runtime (ex_store []) ''VS'' (Some ''JWARA'') 1 1 of
        Inl e \<Rightarrow> False
      | Inr ex \<Rightarrow> exp_total ex = 2 \<and> length (exp_contains ex) = 1
          \<and> exp_contains ex =
              [\<lparr>coding_system = ''A'', coding_code = ''AAC'',
                coding_display = ''Pitta Jwara''\<rparr>])"
proof -
  let ?lc = "toLowerCase ascii_runtime"
  have 1: "valuesets (ex_store []) = Inr [ex_valueSet]"
    by (simp add: ex_store_def)
  have 2: "find (\<lambda>v. vs_url v = ''VS'') [ex_valueSet] = Some ex_valueSet"
    by code_simp
  have 3: "vs_compose ex_valueSet = Some \<lparr>compose_include = Some [\<lparr>include_system = Some ''A''\<rparr>]\<rparr>"
    by (simp add: ex_valueSet_def)
  have 4: "compose_include \<lparr>compose_include = Some [\<lparr>include_system = Some ''A''\<rparr>]\<rparr>
         = Some (\<lparr>include_system = Some ''A''\<rparr> # [])"
    by simp
  have 5: "include_system \<lparr>include_system = Some ''A''\<rparr> = Some ''A''"
    by simp
  have 6: "''A'' \<noteq> []"
    by simp
  have 7: "codesystems (ex_store []) = Inr [ex_codeSystem]"
    by (simp add: ex_store_def)
  have 8: "find (\<lambda>c. cs_url c = ''A'') [ex_codeSystem] = Some ex_codeSystem"
    by code_simp
  have 9: "[ex_concept, ex_concept2, ex_concept3]
         = (case cs_concept ex_codeSystem of None \<Rightarrow> [] | Some xs \<Rightarrow> xs)"
    by (simp add: ex_codeSystem_def)
  have 10: "[ex_concept, ex_concept2] =
      (case Some ''JWARA'' of
         None \<Rightarrow> [ex_concept, ex_concept2, ex_concept3]
       | Some f \<Rightarrow>
           if f = [] then [ex_concept, ex_concept2, ex_concept3]
           else filter
                  (\<lambda>c. sublist (?lc f) (?lc (concept_display c))
                     \<or> sublist (?lc f) (?lc (concept_code c))
                     \<or> (case concept_definition c of
                           None \<Rightarrow> False
                         | Some d \<Rightarrow> sublist (?lc f) (?lc d)))
                  [ex_concept, ex_concept2, ex_concept3])"
    by code_simp
  have 11: "map (\<lambda>c. \<lparr>coding_system = ''A'', coding_code = concept_code c,
                     coding_display = concept_display c\<rparr>)
             (take 1 (drop 1 [ex_concept, ex_concept2])) =
           [\<lparr>coding_system = ''A'', coding_code = ''AAC'', coding_display = ''Pitta Jwara''\<rparr>]"
    by code_simp
  from expandValueSet_pagination [OF 1 2 3 4 5 6 7 8 9 10, of 1 1]
  obtain ex where ex: "expandValueSet ascii_runtime (ex_store []) ''VS'' (Some ''JWARA'') 1 1 = Inr ex"
    and "exp_total ex = length [ex_concept, ex_concept2]"
    and "length (exp_contains ex) =
          (if 1 < exp_total ex then min 1 (exp_total ex - 1) else 0)"
    and "exp_contains ex =
          map (\<lambda>c. \<lparr>coding_system = ''A'', coding_code = concept_code c,
                     coding_display = concept_display c\<rparr>)
            (take 1 (drop 1 [ex_concept, ex_concept2]))"
    by blast
  then have "exp_total ex = 2 \<and> length (exp_contains ex) = 1
        \<and> exp_contains ex =
            [\<lparr>coding_system = ''A'', coding_code = ''AAC'', coding_display = ''Pitta Jwara''\<rparr>]"
    unfolding 11 by simp
  with ex 9 [symmetric] show ?thesis
    by simp
qed

section \<open>Not-found and invalid-query outcomes\<close>

text \<open>The bundle of a rejected query, field by field.\<close>

lemma searchTerms_too_short:
  "length (trim rt (toLowerCase rt query)) < 2 \<Longrightarrow>
   bundle_total (searchTerms rt idx query opts) = 0
   \<and> bundle_entry (searchTerms rt idx query opts) = []
   \<and> bundle_issue (searchTerms rt idx query opts) = Some ''Query too short''"
  by (simp add: searchTerms_def Let_def createEmptySearchBundle_def)

text \<open>
  The ways in which the lookup inside a ConceptMap ends without a target: no group
  list, no group of the source system, no element list, no element of the code, no
  target list, no target with equivalence \<open>equivalent\<close>.
\<close>

lemma find_target_none:
  assumes "cm_group cm = Undefined
    \<or> (cm_group cm = Defined gs \<and> find (\<lambda>g. group_source g = s) gs = None)
    \<or> (cm_group cm = Defined gs \<and> find (\<lambda>g. group_source g = s) gs = Some g
        \<and> (group_element g = Undefined
          \<or> (group_element g = Defined els \<and> find (\<lambda>e. element_code e = c) els = None)
          \<or> (group_element g = Defined els \<and> find (\<lambda>e. element_code e = c) els = Some el
              \<and> (element_target el = Undefined
                \<or> (element_target el = Defined ts
                    \<and> find (\<lambda>t. target_equivalence t = ''equivalent'') ts = None)))))"
  shows "find_target cm s c = Inr None"
  using assms by (auto simp: find_target_def)

lemma translateConcept_no_target:
  "conceptmaps db = Inr cms \<Longrightarrow>
   find (\<lambda>m. sourceUri m = s \<and> targetUri m = tgt) cms = Some cm \<Longrightarrow>
   find_target cm s c = Inr None \<Longrightarrow>
   translateConcept db s c tgt = Inr (ResultFalse ''No equivalent mapping found'')"
  by (simp add: translateConcept_def)

text \<open>
  C4 (amended). A query whose lower-cased and trimmed form has fewer than two
  characters makes \<open>searchTerms\<close> return a bundle with total 0, no entries and the
  reason \<open>Query too short\<close>. On a readable store, a translation request for which no
  ConceptMap matches makes \<open>translateConcept\<close> return a \<open>result = false\<close> Parameters
  resource, and so does one whose ConceptMap has no group of the source system, no
  element of the code, or no target with equivalence \<open>equivalent\<close>. An expansion
  request for a uri that no ValueSet of a readable store has makes \<open>expandValueSet\<close>
  throw the error \<open>ValueSet not found\<close>, and a request whose ValueSet names a
  CodeSystem that the store does not have makes it throw another error,
  \<open>Referenced CodeSystem not found\<close>.
\<close>

theorem not_found_outcomes:
  "(length (trim rt (toLowerCase rt query)) < 2 \<longrightarrow>
      bundle_total (searchTerms rt idx query opts) = 0
      \<and> bundle_entry (searchTerms rt idx query opts) = []
      \<and> bundle_issue (searchTerms rt idx query opts) = Some ''Query too short'')
   \<and> (conceptmaps db = Inr cms
        \<and> find (\<lambda>m. sourceUri m = s \<and> targetUri m = tgt) cms = None \<longrightarrow>
      translateConcept db s c tgt =
        Inr (ResultFalse ''No ConceptMap found for the specified systems''))
   \<and> (conceptmaps db = Inr cms
        \<and> find (\<lambda>m. sourceUri m = s \<and> targetUri m = tgt) cms = Some cm
        \<and> (cm_group cm = Undefined
          \<or> (cm_group cm = Defined gs \<and> find (\<lambda>g. group_source g = s) gs = None)
          \<or> (cm_group cm = Defined gs \<and> find (\<lambda>g. group_source g = s) gs = Some g
              \<and> (group_element g = Undefined
                \<or> (group_element g = Defined els
                    \<and> find (\<lambda>e. element_code e = c) els = None)
                \<or> (group_element g = Defined els
                    \<and> find (\<lambda>e. element_code e = c) els = Some el
                    \<and> (element_target el = Undefined
                      \<or> (element_target el = Defined ts
                          \<and> find (\<lambda>t. target_equivalence t = ''equivalent'') ts = None))))))
      \<longrightarrow> translateConcept db s c tgt = Inr (ResultFalse ''No equivalent mapping found''))
   \<and> (valuesets db' = Inr vss \<and> find (\<lambda>v. vs_url v = url) vss = None \<longrightarrow>
      expandValueSet rt db' url flt count offset = Inl (Error ''ValueSet not found''))
   \<and> (valuesets db' = Inr vss \<and> find (\<lambda>v. vs_url v = url) vss = Some vs
        \<and> vs_compose vs = Some cmp \<and> compose_include cmp = Some (inc # incs)
        \<and> include_system inc = Some sys \<and> sys \<noteq> []
        \<and> codesystems db' = Inr css \<and> find (\<lambda>c. cs_url c = sys) css = None \<longrightarrow>
      expandValueSet rt db' url flt count offset =
        Inl (Error ''Referenced CodeSystem not found''))"
proof -
  have short: "length (trim rt (toLowerCase rt query)) < 2 \<longrightarrow>
      bundle_total (searchTerms rt idx query opts) = 0
      \<and> bundle_entry (searchTerms rt idx query opts) = []
      \<and> bundle_issue (searchTerms rt idx query opts) = Some ''Query too short''"
    using searchTerms_too_short [of rt query idx opts] by blast
  have no_map: "conceptmaps db = Inr cms
        \<and> find (\<lambda>m. sourceUri m = s \<and> targetUri m = tgt) cms = None \<longrightarrow>
      translateConcept db s c tgt =
        Inr (ResultFalse ''No ConceptMap found for the specified systems'')"
    by (simp add: translateConcept_def)
  have no_target: "conceptmaps db = Inr cms
        \<and> find (\<lambda>m. sourceUri m = s \<and> targetUri m = tgt) cms = Some cm
        \<and> (cm_group cm = Undefined
          \<or> (cm_group cm = Defined gs \<and> find (\<lambda>g. group_source g = s) gs = None)
          \<or> (cm_group cm = Defined gs \<and> find (\<lambda>g. group_source g = s) gs = Some g
              \<and> (group_element g = Undefined
                \<or> (group_element g = Defined els
                    \<and> find (\<lambda>e. element_code e = c) els = None)
                \<or> (group_element g = Defined els
                    \<and> find (\<lambda>e. element_code e = c) els = Some el
                    \<and> (element_target el = Undefined
                      \<or> (element_target el = Defined ts
                          \<and> find (\<lambda>t. target_equivalence t = ''equivalent'') ts = None))))))
      \<longrightarrow> translateConcept db s c tgt = Inr (ResultFalse ''No equivalent mapping found'')"
    using find_target_none [of cm gs s g els c el ts]
      translateConcept_no_target [of db cms s tgt cm c]
    by blast
  have no_vs: "valuesets db' = Inr vss \<and> find (\<lambda>v. vs_url v = url) vss = None \<longrightarrow>
      expandValueSet rt db' url flt count offset = Inl (Error ''ValueSet not found'')"
    by (simp add: expandValueSet_def)
  have no_cs: "valuesets db' = Inr vss \<and> find (\<lambda>v. vs_url v = url) vss = Some vs
        \<and> vs_compose vs = Some cmp \<and> compose_include cmp = Some (inc # incs)
        \<and> include_system inc = Some sys \<and> sys \<noteq> []
        \<and> codesystems db' = Inr css \<and> find (\<lambda>c. cs_url c = sys) css = None \<longrightarrow>
      expandValueSet rt db' url flt count offset =
        Inl (Error ''Referenced CodeSystem not found'')"
    by (simp add: expandValueSet_def first_include_def)
  from short no_map no_target no_vs no_cs show ?thesis
    by (intro conjI)
qed

text \<open>
  One request of each kind: a query of one letter between blanks; a pair of systems
  without ConceptMap; a ConceptMap without group list, without group of the source,
  without element list, without element of the code, without target list and with a
  target of another equivalence only; an unknown ValueSet; a ValueSet over an unknown
  CodeSystem.
\<close>

theorem not_found_outcomes_witness:
  "bundle_issue (searchTerms ascii_runtime ex_index '' X '' ex_options) = Some ''Query too short''
   \<and> bundle_total (searchTerms ascii_runtime ex_index '' X '' ex_options) = 0
   \<and> translateConcept (ex_store []) ''A'' ''AAB'' ''B'' =
        Inr (ResultFalse ''No ConceptMap found for the specified systems'')
   \<and> translateConcept (ex_store [ex_map\<lparr>cm_group := Undefined\<rparr>]) ''A'' ''AAB'' ''B'' =
        Inr (ResultFalse ''No equivalent mapping found'')
   \<and> translateConcept (ex_store [ex_map]) ''B'' ''AAB'' ''B'' =
        Inr (ResultFalse ''No ConceptMap found for the specified systems'')
   \<and> translateConcept (ex_store [ex_map_other_source]) ''A'' ''AAB'' ''B'' =
        Inr (ResultFalse ''No equivalent mapping found'')
   \<and> translateConcept (ex_store [ex_map_no_elements]) ''A'' ''AAB'' ''B'' =
        Inr (ResultFalse ''No equivalent mapping found'')
   \<and> translateConcept (ex_store [ex_map]) ''A'' ''ZZZ'' ''B'' =
        Inr (ResultFalse ''No equivalent mapping found'')
   \<and> translateConcept (ex_store [ex_map_no_targets]) ''A'' ''AAB'' ''B'' =
        Inr (ResultFalse ''No equivalent mapping found'')
   \<and> translateConcept (ex_store [ex_map_bio]) ''A'' ''AAB'' ''C'' =
        Inr (ResultFalse ''No equivalent mapping found'')
   \<and> expandValueSet ascii_runtime (ex_store []) ''missing'' None 20 0 =
        Inl (Error ''ValueSet not found'')
   \<and> expandValueSet ascii_runtime ex_store_dangling ''VS'' None 20 0 =
        Inl (Error ''Referenced CodeSystem not found'')"
proof -
  have 1: "length (trim ascii_runtime (toLowerCase ascii_runtime '' X '')) < 2"
    by code_simp
  from not_found_outcomes [where rt = ascii_runtime and query = "'' X ''" and idx = ex_index
      and opts = ex_options,
      THEN conjunct1] 1
  have a: "bundle_issue (searchTerms ascii_runtime ex_index '' X '' ex_options)
        = Some ''Query too short''
      \<and> bundle_total (searchTerms ascii_runtime ex_index '' X '' ex_options) = 0"
    by blast
  have 2: "conceptmaps (ex_store []) = Inr []
        \<and> find (\<lambda>m. sourceUri m = ''A'' \<and> targetUri m = ''B'') [] = None"
    by (simp add: ex_store_def)
  from not_found_outcomes [where db = "ex_store []" and cms = "[]" and s = "''A''" and tgt = "''B''"
      and c = "''AAB''",
      THEN conjunct2, THEN conjunct1] 2
  have b: "translateConcept (ex_store []) ''A'' ''AAB'' ''B'' =
        Inr (ResultFalse ''No ConceptMap found for the specified systems'')"
    by blast
  have 3: "conceptmaps (ex_store [ex_map]) = Inr [ex_map]
        \<and> find (\<lambda>m. sourceUri m = ''B'' \<and> targetUri m = ''B'') [ex_map] = None"
    by code_simp
  from not_found_outcomes [where db = "ex_store [ex_map]" and cms = "[ex_map]" and s = "''B''"
      and tgt = "''B''" and c = "''AAB''",
      THEN conjunct2, THEN conjunct1] 3
  have b': "translateConcept (ex_store [ex_map]) ''B'' ''AAB'' ''B'' =
        Inr (ResultFalse ''No ConceptMap found for the specified systems'')"
    by blast
  let ?m1 = "ex_map\<lparr>cm_group := Undefined\<rparr>"
  have 4: "conceptmaps (ex_store [?m1]) = Inr [?m1]
        \<and> find (\<lambda>m. sourceUri m = ''A'' \<and> targetUri m = ''B'') [?m1] = Some ?m1
        \<and> cm_group ?m1 = Undefined"
    by code_simp
  from not_found_outcomes [where db = "ex_store [?m1]" and cms = "[?m1]" and s = "''A''" and tgt = "''B''"
      and cm = ?m1 and c = "''AAB''"
      and gs = "[]"
      and g = ex_group
      and els = "[]"
      and el = ex_element
      and ts = "[]",
      THEN conjunct2, THEN conjunct2, THEN conjunct1] 4
  have c1: "translateConcept (ex_store [?m1]) ''A'' ''AAB'' ''B'' =
        Inr (ResultFalse ''No equivalent mapping found'')"
    by blast
  let ?m2 = ex_map_other_source
  have 5: "conceptmaps (ex_store [?m2]) = Inr [?m2]
        \<and> find (\<lambda>m. sourceUri m = ''A'' \<and> targetUri m = ''B'') [?m2] = Some ?m2
        \<and> cm_group ?m2 = Defined [ex_group\<lparr>group_source := ''X''\<rparr>]
        \<and> find (\<lambda>g. group_source g = ''A'') [ex_group\<lparr>group_source := ''X''\<rparr>] = None"
    by code_simp
  from not_found_outcomes [where db = "ex_store [?m2]" and cms = "[?m2]" and s = "''A''" and tgt = "''B''"
      and cm = ?m2 and c = "''AAB''" and gs = "[ex_group\<lparr>group_source := ''X''\<rparr>]"
      and g = ex_group
      and els = "[]"
      and el = ex_element
      and ts = "[]",
      THEN conjunct2, THEN conjunct2, THEN conjunct1] 5
  have c2: "translateConcept (ex_store [?m2]) ''A'' ''AAB'' ''B'' =
        Inr (ResultFalse ''No equivalent mapping found'')"
    by blast
  let ?m3 = ex_map_no_elements
  let ?g3 = "ex_group\<lparr>group_element := Undefined\<rparr>"
  have 6: "conceptmaps (ex_store [?m3]) = Inr [?m3]
        \<and> find (\<lambda>m. sourceUri m = ''A'' \<and> targetUri m = ''B'') [?m3] = Some ?m3
        \<and> cm_group ?m3 = Defined [?g3]
        \<and> find (\<lambda>g. group_source g = ''A'') [?g3] = Some ?g3
        \<and> group_element ?g3 = Undefined"
    by code_simp
  from not_found_outcomes [where db = "ex_store [?m3]" and cms = "[?m3]" and s = "''A''" and tgt = "''B''"
      and cm = ?m3 and c = "''AAB''" and gs = "[?g3]" and g = ?g3
      and els = "[]"
      and el = ex_element
      and ts = "[]",
      THEN conjunct2, THEN conjunct2, THEN conjunct1] 6
  have c3: "translateConcept (ex_store [?m3]) ''A'' ''AAB'' ''B'' =
        Inr (ResultFalse ''No equivalent mapping found'')"
    by blast
  have 7: "conceptmaps (ex_store [ex_map]) = Inr [ex_map]
        \<and> find (\<lambda>m. sourceUri m = ''A'' \<and> targetUri m = ''B'') [ex_map] = Some ex_map
        \<and> cm_group ex_map = Defined [ex_group]
        \<and> find (\<lambda>g. group_source g = ''A'') [ex_group] = Some ex_group
        \<and> group_element ex_group = Defined [ex_element]
        \<and> find (\<lambda>e. element_code e = ''ZZZ'') [ex_element] = None"
    by code_simp
  from not_found_outcomes [where db = "ex_store [ex_map]" and cms = "[ex_map]" and s = "''A''"
      and tgt = "''B''" and cm = ex_map and c = "''ZZZ''" and gs = "[ex_group]"
      and g = ex_group and els = "[ex_element]"
      and el = ex_element
      and ts = "[]",
      THEN conjunct2, THEN conjunct2, THEN conjunct1] 7
  have c4: "translateConcept (ex_store [ex_map]) ''A'' ''ZZZ'' ''B'' =
        Inr (ResultFalse ''No equivalent mapping found'')"
    by blast
  let ?m5 = ex_map_no_targets
  let ?e5 = "ex_element\<lparr>element_target := Undefined\<rparr>"
  let ?g5 = "ex_group\<lparr>group_element := Defined [?e5]\<rparr>"
  have 8: "conceptmaps (ex_store [?m5]) = Inr [?m5]
        \<and> find (\<lambda>m. sourceUri m = ''A'' \<and> targetUri m = ''B'') [?m5] = Some ?m5
        \<and> cm_group ?m5 = Defined [?g5]
        \<and> find (\<lambda>g. group_source g = ''A'') [?g5] = Some ?g5
        \<and> group_element ?g5 = Defined [?e5]
        \<and> find (\<lambda>e. element_code e = ''AAB'') [?e5] = Some ?e5
        \<and> element_target ?e5 = Undefined"
    by code_simp
  from not_found_outcomes [where db = "ex_store [?m5]" and cms = "[?m5]" and s = "''A''" and tgt = "''B''"
      and cm = ?m5 and c = "''AAB''" and gs = "[?g5]" and g = ?g5 and els = "[?e5]"
      and el = ?e5
      and ts = "[]",
      THEN conjunct2, THEN conjunct2, THEN conjunct1] 8
  have c5: "translateConcept (ex_store [?m5]) ''A'' ''AAB'' ''B'' =
        Inr (ResultFalse ''No equivalent mapping found'')"
    by blast
  let ?t6 = "\<lparr>target_code = ''1A00'', target_display = ''Cholera'',
      target_equivalence = ''relatedto'', target_comment = None\<rparr>"
  let ?e6 = "\<lparr>element_code = ''AAB'', element_display = ''Vata Jwara'',
      element_target = Defined [?t6]\<rparr>"
  let ?g6 = "\<lparr>group_source = ''A'', group_target = ''C'', group_element = Defined [?e6]\<rparr>"
  have 9: "conceptmaps (ex_store [ex_map_bio]) = Inr [ex_map_bio]
        \<and> find (\<lambda>m. sourceUri m = ''A'' \<and> targetUri m = ''C'') [ex_map_bio] = Some ex_map_bio
        \<and> cm_group ex_map_bio = Defined [?g6]
        \<and> find (\<lambda>g. group_source g = ''A'') [?g6] = Some ?g6
        \<and> group_element ?g6 = Defined [?e6]
        \<and> find (\<lambda>e. element_code e = ''AAB'') [?e6] = Some ?e6
        \<and> element_target ?e6 = Defined [?t6]
        \<and> find (\<lambda>t. target_equivalence t = ''equivalent'') [?t6] = None"
    by code_simp
  from not_found_outcomes [where db = "ex_store [ex_map_bio]" and cms = "[ex_map_bio]" and s = "''A''"
      and tgt = "''C''" and cm = ex_map_bio and c = "''AAB''" and gs = "[?g6]" and g = ?g6
      and els = "[?e6]" and el = ?e6 and ts = "[?t6]",
      THEN conjunct2, THEN conjunct2, THEN conjunct1] 9
  have c6: "translateConcept (ex_store [ex_map_bio]) ''A'' ''AAB'' ''C'' =
        Inr (ResultFalse ''No equivalent mapping found'')"
    by blast
  have 10: "valuesets (ex_store []) = Inr [ex_valueSet]
        \<and> find (\<lambda>v. vs_url v = ''missing'') [ex_valueSet] = None"
    by code_simp
  from not_found_outcomes [where rt = ascii_runtime and db' = "ex_store []" and vss = "[ex_valueSet]" and url = "''missing''"
      and flt = None and count = 20 and offset = 0,
      THEN conjunct2, THEN conjunct2, THEN conjunct2, THEN conjunct1] 10
  have d: "expandValueSet ascii_runtime (ex_store []) ''missing'' None 20 0
      = Inl (Error ''ValueSet not found'')"
    by blast
  let ?inc = "\<lparr>include_system = Some ''A''\<rparr>"
  let ?cmp = "\<lparr>compose_include = Some [?inc]\<rparr>"
  have 11: "valuesets ex_store_dangling = Inr [ex_valueSet]
        \<and> find (\<lambda>v. vs_url v = ''VS'') [ex_valueSet] = Some ex_valueSet
        \<and> vs_compose ex_valueSet = Some ?cmp \<and> compose_include ?cmp = Some (?inc # [])
        \<and> include_system ?inc = Some ''A'' \<and> ''A'' \<noteq> []
        \<and> codesystems ex_store_dangling = Inr []
        \<and> find (\<lambda>c. cs_url c = ''A'') [] = None"
    by code_simp
  from not_found_outcomes [where rt = ascii_runtime and db' = ex_store_dangling and vss = "[ex_valueSet]" and url = "''VS''"
      and vs = ex_valueSet and cmp = ?cmp and inc = ?inc and incs = "[]" and sys = "''A''"
      and css = "[]" and flt = None and count = 20 and offset = 0,
      THEN conjunct2, THEN conjunct2, THEN conjunct2, THEN conjunct2] 11
  have e: "expandValueSet ascii_runtime ex_store_dangling ''VS'' None 20 0
      = Inl (Error ''Referenced CodeSystem not found'')"
    by blast
  from a b b' c1 c2 c3 c4 c5 c6 d e show ?thesis
    unfolding ex_map_other_source_def [symmetric] by blast
qed

text \<open>
  C4 as first stated has \<open>expandValueSet\<close> return a typed not-found result. For a
  uri that no ValueSet of the store has, the call does not return: it throws.
\<close>

theorem expandValueSet_not_found_counterexample:
  "valuesets (ex_store []) = Inr [ex_valueSet]
   \<and> find (\<lambda>v. vs_url v = ''missing'') [ex_valueSet] = None
   \<and> expandValueSet ascii_runtime (ex_store []) ''missing'' None 20 0
       = Inl (Error ''ValueSet not found'')"
  by code_simp

section \<open>Relevance scoring\<close>

text \<open>Every block adds its increment to the score it is given.\<close>

lemma code_block_add: "code_block rt q e s = s + code_block rt q e 0"
  by (simp add: code_block_def)

lemma display_block_add: "display_block rt q e s = s + spec_display_increment rt q (display e)"
  by (simp add: display_block_def spec_display_increment_def)

lemma definition_block_add: "definition_block rt q e s = s + definition_block rt q e 0"
  by (simp add: definition_block_def)

lemma foldl_count:
  "foldl (\<lambda>s t. if P t then s + 10 else s) (s::int) ts = s + 10 * int (length (filter P ts))"
  by (induction ts arbitrary: s) simp_all

lemma property_block_count:
  "property_block rt q e s =
     s + 10 * int (length (filter (\<lambda>t. includesStr t q \<and> t \<noteq> toLowerCase rt (code e)
                                          \<and> t \<noteq> toLowerCase rt (display e))
                             (entry_searchTerms e)))"
  unfolding property_block_def by (rule foldl_count)

lemma property_block_add: "property_block rt q e s = s + property_block rt q e 0"
  by (simp add: property_block_count)

lemma boost_block_add: "boost_block e s = s + boost_block e 0"
  by (simp add: boost_block_def)

lemma spec_display_increment_cases: "spec_display_increment rt q d \<in> {0, 40, 60, 80}"
  by (simp add: spec_display_increment_def)

lemma match_score_sum:
  "match_score rt q e =
     code_block rt q e 0 + spec_display_increment rt q (display e) + definition_block rt q e 0
     + property_block rt q e 0"
  unfolding match_score_def
  by (subst property_block_add, subst definition_block_add, subst display_block_add) simp

lemma score_without_fuzzy:
  "calculateRelevanceScore rt q e False = boost_block e (match_score rt q e)"
  by (simp add: calculateRelevanceScore_def calculateRelevanceScore_traced_def fuzzy_block_def
        match_score_def)

text \<open>
  C7. The display block adds to the score exactly the increment of the display rule:
  80 if the lower-cased display equals the query, else 60 if it starts with the query,
  else 40 if it contains the query, else 0. The increment is one of these four values,
  never a sum of two of them, and it enters the relevance score once.
\<close>

theorem display_contributes_once:
  "display_block rt q e s = s + spec_display_increment rt q (display e)
   \<and> spec_display_increment rt q (display e) \<in> {0, 40, 60, 80}
   \<and> calculateRelevanceScore rt q e False =
       code_block rt q e 0 + spec_display_increment rt q (display e) + definition_block rt q e 0
       + property_block rt q e 0 + boost_block e 0"
proof (intro conjI)
  show "display_block rt q e s = s + spec_display_increment rt q (display e)"
    by (rule display_block_add)
  show "spec_display_increment rt q (display e) \<in> {0, 40, 60, 80}"
    by (rule spec_display_increment_cases)
  have "calculateRelevanceScore rt q e False = match_score rt q e + boost_block e 0"
    unfolding score_without_fuzzy by (rule boost_block_add)
  then show "calculateRelevanceScore rt q e False =
       code_block rt q e 0 + spec_display_increment rt q (display e) + definition_block rt q e 0
       + property_block rt q e 0 + boost_block e 0"
    by (simp add: match_score_sum)
qed


text \<open>
  A display equal to the query also starts with it and contains it; the score is 80,
  not 180.
\<close>

theorem display_contributes_once_witness:
  "calculateRelevanceScore ascii_runtime ''vata'' ex_vata False = 80
   \<and> startsWith (toLowerCase ascii_runtime (display ex_vata)) ''vata''
   \<and> includesStr (toLowerCase ascii_runtime (display ex_vata)) ''vata''"
proof -
  have 1: "code_block ascii_runtime ''vata'' ex_vata 0 = 0" "definition_block ascii_runtime ''vata'' ex_vata 0 = 0"
    "property_block ascii_runtime ''vata'' ex_vata 0 = 0" "boost_block ex_vata 0 = 0"
    by code_simp+
  have 2: "spec_display_increment ascii_runtime ''vata'' (display ex_vata) = 80"
    by code_simp
  have 3: "startsWith (toLowerCase ascii_runtime (display ex_vata)) ''vata''"
    "includesStr (toLowerCase ascii_runtime (display ex_vata)) ''vata''"
    by code_simp+
  from display_contributes_once [of ascii_runtime "''vata''" ex_vata 0]
  have "calculateRelevanceScore ascii_runtime ''vata'' ex_vata False = 80"
    unfolding 1 2 by simp
  with 3 show ?thesis
    by simp
qed

lemma code_block_nonneg: "0 \<le> code_block rt q e 0"
  by (simp add: code_block_def)

lemma definition_block_nonneg: "0 \<le> definition_block rt q e 0"
  by (simp add: definition_block_def)

lemma property_block_nonneg: "0 \<le> property_block rt q e 0"
  by (simp add: property_block_count)

lemma spec_display_increment_nonneg: "0 \<le> spec_display_increment rt q d"
  by (simp add: spec_display_increment_def)

lemma match_score_nonneg: "0 \<le> match_score rt q e"
  unfolding match_score_sum
  using code_block_nonneg [of rt q e] definition_block_nonneg [of rt q e]
    property_block_nonneg [of rt q e] spec_display_increment_nonneg [of rt q "display e"]
  by linarith

lemma traced_unfold:
  "calculateRelevanceScore_traced rt q e fz =
     (boost_block e (fst (fuzzy_block rt q e fz (match_score rt q e, 0))),
      snd (fuzzy_block rt q e fz (match_score rt q e, 0)))"
  by (simp add: calculateRelevanceScore_traced_def match_score_def split: prod.splits)

lemma fuzzy_block_calls:
  "snd (fuzzy_block rt q e fz (s, n)) = (if fz \<and> s = 0 then Suc n else n)"
  by (simp add: fuzzy_block_def split: option.splits)

lemma fuzzy_block_score:
  "fst (fuzzy_block rt q e fz (s, n)) =
     s + (if fz \<and> s = 0 then spec_fuzzy_contribution rt q e else 0)"
  by (simp add: fuzzy_block_def spec_fuzzy_contribution_def split: option.splits)

lemma relevance_score_unfold:
  "calculateRelevanceScore rt q e fz =
     match_score rt q e
     + (if fz \<and> match_score rt q e = 0 then spec_fuzzy_contribution rt q e else 0)
     + (if systemType e = ''namaste'' then 5 else 0)"
proof -
  have "calculateRelevanceScore rt q e fz =
      boost_block e (match_score rt q e
        + (if fz \<and> match_score rt q e = 0 then spec_fuzzy_contribution rt q e else 0))"
    by (simp add: calculateRelevanceScore_def traced_unfold fuzzy_block_score)
  then show ?thesis
    by (simp add: boost_block_def)
qed

text \<open>
  C2 (amended). \<open>calculateFuzzyScore\<close> is called once when the caller enabled fuzzy
  mode and the score accumulated by the code, display, definition and search-term
  rules is 0, and not at all otherwise; in particular never when that accumulated
  score is greater than 0, and never when fuzzy mode is off. When it is called and the
  best similarity exceeds 0.7, it contributes \<open>floor (similarity * 30)\<close> to the
  score. The boost of 5 for a \<open>namaste\<close> entry is added after the fuzzy step and
  plays no part in the gate.
\<close>

theorem fuzzy_gating:
  "fuzzy_calls rt q e fz = (if fz \<and> match_score rt q e = 0 then 1 else 0)
   \<and> (0 < match_score rt q e \<longrightarrow> fuzzy_calls rt q e fz = 0)
   \<and> (\<not> fz \<longrightarrow> fuzzy_calls rt q e fz = 0)
   \<and> 0 \<le> match_score rt q e
   \<and> calculateRelevanceScore rt q e fz =
       match_score rt q e
       + (if fz \<and> match_score rt q e = 0 then spec_fuzzy_contribution rt q e else 0)
       + (if systemType e = ''namaste'' then 5 else 0)"
proof -
  have calls: "fuzzy_calls rt q e fz = (if fz \<and> match_score rt q e = 0 then 1 else 0)"
    by (simp add: fuzzy_calls_def traced_unfold fuzzy_block_calls)
  have pos: "0 < match_score rt q e \<longrightarrow> fuzzy_calls rt q e fz = 0"
    using calls by simp
  have off: "\<not> fz \<longrightarrow> fuzzy_calls rt q e fz = 0"
    using calls by (cases fz) simp_all
  from calls pos off match_score_nonneg [of rt q e] relevance_score_unfold [of rt q e fz]
  show ?thesis
    by (intro conjI)
qed

text \<open>
  The example of the specification: \<open>vata\<close> against \<open>VAT1\<close>, \<open>Vata disorder\<close>
  scores by a prefix match and the fuzzy matcher is not called. The misspelt \<open>vatta\<close>
  against the display \<open>Vata\<close> matches nothing, has similarity 4/5 and scores 24.
\<close>

theorem fuzzy_gating_witness:
  "fuzzy_calls ascii_runtime ''vata'' ex_vat1 True = 0
   \<and> calculateRelevanceScore ascii_runtime ''vata'' ex_vat1 True = 60
   \<and> fuzzy_calls ascii_runtime ''vatta'' ex_vata True = 1
   \<and> calculateRelevanceScore ascii_runtime ''vatta'' ex_vata True = 24
   \<and> fuzzy_calls ascii_runtime ''vatta'' ex_vata False = 0"
proof -
  have 1: "match_score ascii_runtime ''vata'' ex_vat1 = 60" "systemType ex_vat1 \<noteq> ''namaste''"
    by code_simp+
  have 2: "match_score ascii_runtime ''vatta'' ex_vata = 0" "systemType ex_vata \<noteq> ''namaste''"
    "spec_fuzzy_contribution ascii_runtime ''vatta'' ex_vata = 24"
    by code_simp+
  from fuzzy_gating [of ascii_runtime "''vata''" ex_vat1 True] 1
  have a: "fuzzy_calls ascii_runtime ''vata'' ex_vat1 True = 0
      \<and> calculateRelevanceScore ascii_runtime ''vata'' ex_vat1 True = 60"
    by simp
  from fuzzy_gating [of ascii_runtime "''vatta''" ex_vata True] 2
  have b: "fuzzy_calls ascii_runtime ''vatta'' ex_vata True = 1
      \<and> calculateRelevanceScore ascii_runtime ''vatta'' ex_vata True = 24"
    by simp
  from fuzzy_gating [of ascii_runtime "''vatta''" ex_vata False]
  have c: "fuzzy_calls ascii_runtime ''vatta'' ex_vata False = 0"
    by simp
  from a b c show ?thesis
    by simp
qed

text \<open>
  C2 as first stated has the fuzzy matcher never called when the relevance score of
  the entry is greater than 0. A \<open>namaste\<close> entry that matches nothing has the
  relevance score 5, with fuzzy mode on or off, and the fuzzy matcher is called for it.
\<close>

theorem fuzzy_gating_counterexample:
  "fuzzy_calls ascii_runtime ''vata'' ex_kapha True = 1
   \<and> 0 < calculateRelevanceScore ascii_runtime ''vata'' ex_kapha True
   \<and> 0 < calculateRelevanceScore ascii_runtime ''vata'' ex_kapha False"
  by code_simp


text \<open>The search terms of an entry are distinct.\<close>

lemma foldl_add_new:
  "distinct seen \<Longrightarrow>
   distinct (foldl (\<lambda>seen x. if x \<in> set seen then seen else seen @ [x]) seen xs)
   \<and> set (foldl (\<lambda>seen x. if x \<in> set seen then seen else seen @ [x]) seen xs)
       = set seen \<union> set xs"
  by (induction xs arbitrary: seen) auto

lemma distinct_new_Set: "distinct (new_Set xs)"
  using foldl_add_new [of "[]" xs] by (simp add: new_Set_def)

lemma set_new_Set: "set (new_Set xs) = set xs"
  using foldl_add_new [of "[]" xs] by (simp add: new_Set_def)

lemma count_new_Set:
  "length (filter P (new_Set xs)) = card {t \<in> set xs. P t}"
  using distinct_length_filter [OF distinct_new_Set, of P xs]
  by (simp add: set_new_Set Int_def conj_commute)

lemma createSearchEntry_fields:
  "code (createSearchEntry rt c cs) = concept_code c"
  "display (createSearchEntry rt c cs) = concept_display c"
  "systemType (createSearchEntry rt c cs) = classify_system (cs_url cs)"
  "entry_definition (createSearchEntry rt c cs) =
     (case concept_definition c of None \<Rightarrow> [] | Some d \<Rightarrow> d)"
  "entry_searchTerms (createSearchEntry rt c cs) =
     new_Set ([toLowerCase rt (concept_code c), toLowerCase rt (concept_display c)]
              @ lowered_if_truthy rt (concept_definition c)
              @ (case concept_property c of
                   None \<Rightarrow> []
                 | Some props \<Rightarrow> concat (map (property_terms rt) props)))"
  by (simp_all add: createSearchEntry_def Let_def)

text \<open>No block of the score reads the mappings of the entry.\<close>

lemma blocks_ignore_mappings:
  "code_block rt q (e\<lparr>mappings := m\<rparr>) s = code_block rt q e s"
  "display_block rt q (e\<lparr>mappings := m\<rparr>) s = display_block rt q e s"
  "definition_block rt q (e\<lparr>mappings := m\<rparr>) s = definition_block rt q e s"
  "property_block rt q (e\<lparr>mappings := m\<rparr>) s = property_block rt q e s"
  "boost_block (e\<lparr>mappings := m\<rparr>) s = boost_block e s"
  by (simp_all add: code_block_def display_block_def definition_block_def property_block_def
        boost_block_def)

lemma calculateFuzzyScore_ignores_mappings:
  "calculateFuzzyScore rt q (e\<lparr>mappings := m\<rparr>) = calculateFuzzyScore rt q e"
  by (simp add: calculateFuzzyScore_def)

lemma fuzzy_block_ignores_mappings:
  "fuzzy_block rt q (e\<lparr>mappings := m\<rparr>) fz st = fuzzy_block rt q e fz st"
  unfolding fuzzy_block_def calculateFuzzyScore_ignores_mappings by (rule refl)

lemma score_ignores_mappings:
  "calculateRelevanceScore rt q (e\<lparr>mappings := m\<rparr>) fz = calculateRelevanceScore rt q e fz"
  unfolding calculateRelevanceScore_def calculateRelevanceScore_traced_def
    blocks_ignore_mappings fuzzy_block_ignores_mappings by (rule refl)

lemma exact_code_beats_substring_fresh:
  assumes same_disp: "concept_display c1 = concept_display c2"
    and same_defn: "concept_definition c1 = concept_definition c2"
    and same_prop: "concept_property c1 = concept_property c2"
    and same_type: "systemType (createSearchEntry rt c1 cs1) = systemType (createSearchEntry rt c2 cs2)"
    and exact: "toLowerCase rt (concept_code c1) = q"
    and part: "includesStr (toLowerCase rt (concept_code c2)) q"
    and proper: "toLowerCase rt (concept_code c2) \<noteq> q"
  shows "calculateRelevanceScore rt q (createSearchEntry rt c2 cs2) fz2
       < calculateRelevanceScore rt q (createSearchEntry rt c1 cs1) fz1"
proof -
  define e1 where "e1 = createSearchEntry rt c1 cs1"
  define e2 where "e2 = createSearchEntry rt c2 cs2"
  define d where "d = toLowerCase rt (concept_display c1)"
  define k where "k = toLowerCase rt (concept_code c2)"
  define R where "R = lowered_if_truthy rt (concept_definition c1)
      @ (case concept_property c1 of None \<Rightarrow> [] | Some props \<Rightarrow> concat (map (property_terms rt) props))"
  define A1 where "A1 = {t \<in> set ([q, d] @ R). includesStr t q \<and> t \<noteq> q \<and> t \<noteq> d}"
  define A2 where "A2 = {t \<in> set ([k, d] @ R). includesStr t q \<and> t \<noteq> k \<and> t \<noteq> d}"
  have terms1: "entry_searchTerms e1 = new_Set ([q, d] @ R)"
    using exact by (simp add: e1_def createSearchEntry_fields d_def R_def)
  have terms2: "entry_searchTerms e2 = new_Set ([k, d] @ R)"
    using same_disp same_defn same_prop by (simp add: e2_def createSearchEntry_fields d_def R_def k_def)
  have lc1: "toLowerCase rt (code e1) = q" "toLowerCase rt (display e1) = d"
    using exact by (simp_all add: e1_def createSearchEntry_fields d_def)
  have lc2: "toLowerCase rt (code e2) = k" "toLowerCase rt (display e2) = d"
    using same_disp by (simp_all add: e2_def createSearchEntry_fields d_def k_def)
  have p1: "property_block rt q e1 0 = 10 * int (card A1)"
    unfolding property_block_count lc1 terms1 count_new_Set A1_def by simp
  have p2: "property_block rt q e2 0 = 10 * int (card A2)"
    unfolding property_block_count lc2 terms2 count_new_Set A2_def by simp
  have "finite A1"
    by (simp add: A1_def)
  moreover have "A2 \<subseteq> insert q A1"
    by (auto simp: A1_def A2_def)
  ultimately have "card A2 \<le> card (insert q A1)"
    by (intro card_mono) simp_all
  also have "\<dots> \<le> Suc (card A1)"
    using \<open>finite A1\<close> by (simp add: card_insert_if)
  finally have cards: "card A2 \<le> Suc (card A1)" .
  have c1: "code_block rt q e1 0 = 100"
    using lc1 by (simp add: code_block_def)
  have c2: "code_block rt q e2 0 = 50"
    using lc2 part proper by (simp add: code_block_def k_def)
  have dsp: "spec_display_increment rt q (display e1) = spec_display_increment rt q (display e2)"
    using lc1 lc2 by (simp add: spec_display_increment_def)
  have dfn: "definition_block rt q e1 0 = definition_block rt q e2 0"
    using same_defn by (simp add: definition_block_def e1_def e2_def createSearchEntry_fields)
  have m1: "match_score rt q e1 =
      100 + spec_display_increment rt q (display e2) + definition_block rt q e2 0 + 10 * int (card A1)"
    by (simp add: match_score_sum c1 dsp dfn p1)
  have m2: "match_score rt q e2 =
      50 + spec_display_increment rt q (display e2) + definition_block rt q e2 0 + 10 * int (card A2)"
    by (simp add: match_score_sum c2 p2)
  have nn: "0 \<le> spec_display_increment rt q (display e2)" "0 \<le> definition_block rt q e2 0"
    by (rule spec_display_increment_nonneg definition_block_nonneg)+
  have pos1: "match_score rt q e1 \<noteq> 0" and pos2: "match_score rt q e2 \<noteq> 0"
    using m1 m2 nn by linarith+
  have s1: "calculateRelevanceScore rt q e1 fz1 =
      match_score rt q e1 + (if systemType e1 = ''namaste'' then 5 else 0)"
    using pos1 by (simp add: relevance_score_unfold)
  have s2: "calculateRelevanceScore rt q e2 fz2 =
      match_score rt q e2 + (if systemType e1 = ''namaste'' then 5 else 0)"
    using pos2 same_type by (simp add: relevance_score_unfold e1_def e2_def)
  have "match_score rt q e2 < match_score rt q e1"
    using m1 m2 cards by linarith
  with s1 s2 show ?thesis
    by (simp add: e1_def e2_def)
qed

text \<open>
  C6. Take two index entries built from concepts that agree on display, definition and
  properties, in code systems of the same system type, with whatever mappings the
  mapping pass has attached to them. If the lower-cased code of the first equals the
  query and the lower-cased code of the second contains the query without being equal
  to it, the first entry scores strictly higher than the second, whatever the fuzzy
  flags.
\<close>

theorem exact_code_beats_substring:
  assumes "concept_display c1 = concept_display c2"
    and "concept_definition c1 = concept_definition c2"
    and "concept_property c1 = concept_property c2"
    and "systemType (createSearchEntry rt c1 cs1) = systemType (createSearchEntry rt c2 cs2)"
    and "toLowerCase rt (concept_code c1) = q"
    and "includesStr (toLowerCase rt (concept_code c2)) q"
    and "toLowerCase rt (concept_code c2) \<noteq> q"
  shows "calculateRelevanceScore rt q (createSearchEntry rt c2 cs2\<lparr>mappings := m2\<rparr>) fz2
       < calculateRelevanceScore rt q (createSearchEntry rt c1 cs1\<lparr>mappings := m1\<rparr>) fz1"
  unfolding score_ignores_mappings using assms by (rule exact_code_beats_substring_fresh)

text \<open>The codes \<open>VATA\<close> and \<open>VATA1\<close> for the query \<open>vata\<close>: 120 against 80.\<close>

theorem exact_code_beats_substring_witness:
  "calculateRelevanceScore ascii_runtime ''vata''
     (createSearchEntry ascii_runtime ex_code_longer ex_icd\<lparr>mappings := []\<rparr>) True
   < calculateRelevanceScore ascii_runtime ''vata''
     (createSearchEntry ascii_runtime ex_code_exact ex_icd\<lparr>mappings := []\<rparr>) True"
proof -
  have 1: "concept_display ex_code_exact = concept_display ex_code_longer"
    and 2: "concept_definition ex_code_exact = concept_definition ex_code_longer"
    and 3: "concept_property ex_code_exact = concept_property ex_code_longer"
    and 4: "systemType (createSearchEntry ascii_runtime ex_code_exact ex_icd)
          = systemType (createSearchEntry ascii_runtime ex_code_longer ex_icd)"
    and 5: "toLowerCase ascii_runtime (concept_code ex_code_exact) = ''vata''"
    and 6: "includesStr (toLowerCase ascii_runtime (concept_code ex_code_longer)) ''vata''"
    and 7: "toLowerCase ascii_runtime (concept_code ex_code_longer) \<noteq> ''vata''"
    by code_simp+
  from exact_code_beats_substring [OF 1 2 3 4 5 6 7] show ?thesis .
qed

section \<open>Search\<close>

text \<open>
  With a limit of at least 1, the scan returns the first \<open>3 * limit\<close> hits.
\<close>

lemma scan_take:
  "int (length acc) < 3 * limit \<Longrightarrow>
   scan rt sf st limit fz q idx acc = acc @ take (nat (3 * limit) - length acc) (hits rt sf st fz q idx)"
proof (induction idx arbitrary: acc)
  case Nil
  then show ?case by simp
next
  case (Cons p idx)
  obtain k e where p: "p = (k, e)"
    by (cases p)
  let ?s = "calculateRelevanceScore rt q e fz"
  let ?r = "\<lparr>result_entry = e, result_score = ?s\<rparr>"
  show ?case
  proof (cases "systemFilter_rejects sf e \<or> systemType_rejects st e")
    case True
    then show ?thesis
      using Cons p by auto
  next
    case pass: False
    show ?thesis
    proof (cases "0 < ?s")
      case False
      then show ?thesis
        using Cons pass p by (simp add: Let_def)
    next
      case hit: True
      show ?thesis
      proof (cases "int (length (acc @ [?r])) \<ge> limit * 3")
        case True
        with Cons.prems have "nat (3 * limit) - length acc = Suc 0"
          by simp
        with True hit pass p show ?thesis
          by (simp add: Let_def)
      next
        case False
        then have less: "int (length (acc @ [?r])) < 3 * limit"
          by simp
        then have "nat (3 * limit) - length acc = Suc (nat (3 * limit) - length (acc @ [?r]))"
          by simp
        with Cons.IH [OF less] False hit pass p show ?thesis
          by (simp add: Let_def)
      qed
    qed
  qed
qed

lemma scan_hits:
  "1 \<le> limit \<Longrightarrow> scan rt sf st limit fz q idx [] = take (nat (3 * limit)) (hits rt sf st fz q idx)"
  using scan_take [of "[]" limit rt sf st fz q idx] by simp

lemma hits_positive: "r \<in> set (hits rt sf st fz q idx) \<Longrightarrow> 0 < result_score r"
  by (induction idx) (auto split: if_splits)

lemma sort_by_score_descending:
  "sorted_wrt (\<lambda>a b. result_score b \<le> result_score a) (sort_by_score rs)"
proof -
  have "sorted (map (\<lambda>r. - result_score r) (sort_by_score rs))"
    unfolding sort_by_score_def by (rule sorted_sort_key)
  then show ?thesis
    by (simp add: sorted_map)
qed

lemma length_sort_by_score: "length (sort_by_score rs) = length rs"
  by (simp add: sort_by_score_def)

lemma searchTerms_long_enough:
  "2 \<le> length (trim rt (toLowerCase rt query)) \<Longrightarrow>
   searchTerms rt idx query opts =
     (let limit = (case opt_limit opts of None \<Rightarrow> 20 | Some l \<Rightarrow> l);
          results = scan rt (opt_systemFilter opts) (opt_systemType opts) limit
                      (case opt_fuzzy opts of None \<Rightarrow> False | Some f \<Rightarrow> f)
                      (trim rt (toLowerCase rt query)) idx []
      in createSearchBundle (slice0 (sort_by_score results) limit) query (length results))"
  by (simp add: searchTerms_def Let_def)

text \<open>
  C5 (amended). For every index and every call of \<open>searchTerms\<close> with a limit of at
  least 1: the reported total is at most \<open>3 * limit\<close>, at most \<open>limit\<close> entries are
  returned, and they are in descending order of score, each with a score above 0. When
  the normalised query has at least two characters, the scan collects the first
  \<open>3 * limit\<close> entries that pass the pre-filters with a score above 0 and stops
  there; the reported total is the number of collected entries, before truncation; the
  returned entries are the first \<open>limit\<close> of the collected ones sorted by score.
\<close>

theorem searchTerms_bounds:
  assumes lim_def: "limit = (case opt_limit opts of None \<Rightarrow> 20 | Some l \<Rightarrow> l)"
    and pos: "1 \<le> limit"
    and fz: "fz = (case opt_fuzzy opts of None \<Rightarrow> False | Some f \<Rightarrow> f)"
    and collected: "collected = scan rt (opt_systemFilter opts) (opt_systemType opts) limit fz
                      (trim rt (toLowerCase rt query)) idx []"
  shows "int (bundle_total (searchTerms rt idx query opts)) \<le> 3 * limit
       \<and> int (length (bundle_entry (searchTerms rt idx query opts))) \<le> limit
       \<and> sorted_wrt (\<lambda>a b. result_score b \<le> result_score a)
            (bundle_entry (searchTerms rt idx query opts))
       \<and> (\<forall>r \<in> set (bundle_entry (searchTerms rt idx query opts)). 0 < result_score r)
       \<and> (2 \<le> length (trim rt (toLowerCase rt query)) \<longrightarrow>
            collected = take (nat (3 * limit))
                          (hits rt (opt_systemFilter opts) (opt_systemType opts) fz
                             (trim rt (toLowerCase rt query)) idx)
            \<and> (\<forall>r \<in> set collected. 0 < result_score r)
            \<and> bundle_total (searchTerms rt idx query opts) = length collected
            \<and> bundle_entry (searchTerms rt idx query opts)
                = take (nat limit) (sort_by_score collected))"
proof (cases "2 \<le> length (trim rt (toLowerCase rt query))")
  case False
  then have "bundle_total (searchTerms rt idx query opts) = 0
      \<and> bundle_entry (searchTerms rt idx query opts) = []"
    using searchTerms_too_short [of rt query idx opts] by simp
  with False pos show ?thesis
    by simp
next
  case long: True
  have c: "collected = take (nat (3 * limit))
                       (hits rt (opt_systemFilter opts) (opt_systemType opts) fz
                          (trim rt (toLowerCase rt query)) idx)"
    unfolding collected using pos by (rule scan_hits)
  have p: "\<forall>r \<in> set collected. 0 < result_score r"
    unfolding c by (auto dest: in_set_takeD hits_positive)
  have b: "searchTerms rt idx query opts =
      createSearchBundle (take (nat limit) (sort_by_score collected)) query (length collected)"
    using pos unfolding searchTerms_long_enough [OF long] collected lim_def fz
    by (simp add: Let_def slice0_def)
  have t: "bundle_total (searchTerms rt idx query opts) = length collected"
    and e: "bundle_entry (searchTerms rt idx query opts) = take (nat limit) (sort_by_score collected)"
    by (simp_all add: b createSearchBundle_def)
  have tb: "int (bundle_total (searchTerms rt idx query opts)) \<le> 3 * limit"
    unfolding t c using pos by simp
  have eb: "int (length (bundle_entry (searchTerms rt idx query opts))) \<le> limit"
    unfolding e using pos by simp
  have s: "sorted_wrt (\<lambda>a b. result_score b \<le> result_score a)
            (bundle_entry (searchTerms rt idx query opts))"
    unfolding e by (rule sorted_wrt_take) (rule sort_by_score_descending)
  have "set (bundle_entry (searchTerms rt idx query opts)) \<subseteq> set collected"
    unfolding e using set_take_subset [of "nat limit" "sort_by_score collected"]
    by (simp add: sort_by_score_def)
  with p have ep: "\<forall>r \<in> set (bundle_entry (searchTerms rt idx query opts)). 0 < result_score r"
    by blast
  from c p t tb e eb s ep show ?thesis
    by (intro conjI impI)
qed

text \<open>
  Four entries of the example index are hits for \<open>vata\<close>. With limit 1 the scan stops
  after three; the total is 3 and one entry is returned.
\<close>

theorem searchTerms_bounds_witness:
  "bundle_total (searchTerms ascii_runtime ex_index ''vata'' (ex_limit 1)) = 3
   \<and> length (bundle_entry (searchTerms ascii_runtime ex_index ''vata'' (ex_limit 1))) = 1
   \<and> length (hits ascii_runtime None None False ''vata'' ex_index) = 4"
proof -
  have 1: "2 \<le> length (trim ascii_runtime (toLowerCase ascii_runtime ''vata''))"
    by code_simp
  have 2: "(1::int) = (case opt_limit (ex_limit 1) of None \<Rightarrow> 20 | Some l \<Rightarrow> l)"
    by code_simp
  have 3: "(1::int) \<le> 1"
    by simp
  have 4: "False = (case opt_fuzzy (ex_limit 1) of None \<Rightarrow> False | Some f \<Rightarrow> f)"
    by code_simp
  have 5: "scan ascii_runtime None None 1 False ''vata'' ex_index [] =
      scan ascii_runtime (opt_systemFilter (ex_limit 1)) (opt_systemType (ex_limit 1)) 1 False
        (trim ascii_runtime (toLowerCase ascii_runtime ''vata'')) ex_index []"
    by code_simp
  have 6: "length (scan ascii_runtime None None 1 False ''vata'' ex_index []) = 3"
    by code_simp
  have 7: "length (take (nat 1) (sort_by_score (scan ascii_runtime None None 1 False ''vata'' ex_index []))) = 1"
    by code_simp
  have 8: "length (hits ascii_runtime None None False ''vata'' ex_index) = 4"
    by code_simp
  from searchTerms_bounds [OF 2 3 4 5] 1
  have "bundle_total (searchTerms ascii_runtime ex_index ''vata'' (ex_limit 1)) =
          length (scan ascii_runtime None None 1 False ''vata'' ex_index [])"
    and "bundle_entry (searchTerms ascii_runtime ex_index ''vata'' (ex_limit 1)) =
          take (nat 1) (sort_by_score (scan ascii_runtime None None 1 False ''vata'' ex_index []))"
    by blast+
  with 6 7 8 show ?thesis
    by simp
qed

text \<open>
  C5 as first stated covers every requested limit. With limit 0 the test for the early
  stop comes after the first hit has been stored: one entry is collected and the total
  is 1, which is more than \<open>3 * 0\<close>.
\<close>

theorem searchTerms_bounds_counterexample:
  "opt_limit (ex_limit 0) = Some 0
   \<and> length (scan ascii_runtime None None 0 False ''vata'' ex_index []) = 1
   \<and> bundle_total (searchTerms ascii_runtime ex_index ''vata'' (ex_limit 0)) = 1
   \<and> \<not> int (bundle_total (searchTerms ascii_runtime ex_index ''vata'' (ex_limit 0))) \<le> 3 * 0"
  by code_simp

section \<open>Normalisation of the query\<close>

text \<open>The bundle depends on the query only through its normalised form.\<close>

lemma searchTerms_same_normal_form:
  assumes "trim rt (toLowerCase rt query) = trim rt (toLowerCase rt query')"
  shows "bundle_total (searchTerms rt idx query opts) = bundle_total (searchTerms rt idx query' opts)
       \<and> bundle_entry (searchTerms rt idx query opts) = bundle_entry (searchTerms rt idx query' opts)
       \<and> bundle_issue (searchTerms rt idx query opts) = bundle_issue (searchTerms rt idx query' opts)"
  using assms
  by (simp add: searchTerms_def Let_def createSearchBundle_def createEmptySearchBundle_def)

lemma searchTerms_scanned:
  assumes "2 \<le> length (trim rt (toLowerCase rt query))"
  shows "bundle_issue (searchTerms rt idx query opts) = None
       \<and> bundle_total (searchTerms rt idx query opts) =
           length (scan rt (opt_systemFilter opts) (opt_systemType opts)
                     (case opt_limit opts of None \<Rightarrow> 20 | Some l \<Rightarrow> l)
                     (case opt_fuzzy opts of None \<Rightarrow> False | Some f \<Rightarrow> f)
                     (trim rt (toLowerCase rt query)) idx [])
       \<and> bundle_entry (searchTerms rt idx query opts) =
           slice0 (sort_by_score
                     (scan rt (opt_systemFilter opts) (opt_systemType opts)
                        (case opt_limit opts of None \<Rightarrow> 20 | Some l \<Rightarrow> l)
                        (case opt_fuzzy opts of None \<Rightarrow> False | Some f \<Rightarrow> f)
                        (trim rt (toLowerCase rt query)) idx []))
             (case opt_limit opts of None \<Rightarrow> 20 | Some l \<Rightarrow> l)"
  using assms by (simp add: searchTerms_def Let_def createSearchBundle_def)

text \<open>
  C10. \<open>searchTerms\<close> lower-cases and trims the query before the length check and
  before scoring. A query whose lower-cased and trimmed form has fewer than two
  characters is rejected: the bundle has total 0, no entries and the reason
  \<open>Query too short\<close>. This is so for the query \<open>" x "\<close> of three raw characters, which
  the runtime normalises to \<open>x\<close>. Otherwise the bundle carries no reason, and its total
  and entries come from the scan of the index with the normalised query, not the raw
  one; two queries with the same normalised form get the same total, entries and
  reason.
\<close>

theorem searchTerms_normalises_query:
  "(length (trim rt (toLowerCase rt query)) < 2 \<longrightarrow>
      bundle_total (searchTerms rt idx query opts) = 0
      \<and> bundle_entry (searchTerms rt idx query opts) = []
      \<and> bundle_issue (searchTerms rt idx query opts) = Some ''Query too short'')
   \<and> (trim rt (toLowerCase rt '' x '') = ''x'' \<longrightarrow>
      length '' x '' = 3
      \<and> bundle_total (searchTerms rt idx '' x '' opts) = 0
      \<and> bundle_entry (searchTerms rt idx '' x '' opts) = []
      \<and> bundle_issue (searchTerms rt idx '' x '' opts) = Some ''Query too short'')
   \<and> (2 \<le> length (trim rt (toLowerCase rt query)) \<longrightarrow>
      bundle_issue (searchTerms rt idx query opts) = None
      \<and> bundle_total (searchTerms rt idx query opts) =
          length (scan rt (opt_systemFilter opts) (opt_systemType opts)
                    (case opt_limit opts of None \<Rightarrow> 20 | Some l \<Rightarrow> l)
                    (case opt_fuzzy opts of None \<Rightarrow> False | Some f \<Rightarrow> f)
                    (trim rt (toLowerCase rt query)) idx [])
      \<and> bundle_entry (searchTerms rt idx query opts) =
          slice0 (sort_by_score
                    (scan rt (opt_systemFilter opts) (opt_systemType opts)
                       (case opt_limit opts of None \<Rightarrow> 20 | Some l \<Rightarrow> l)
                       (case opt_fuzzy opts of None \<Rightarrow> False | Some f \<Rightarrow> f)
                       (trim rt (toLowerCase rt query)) idx []))
            (case opt_limit opts of None \<Rightarrow> 20 | Some l \<Rightarrow> l))
   \<and> (trim rt (toLowerCase rt query) = trim rt (toLowerCase rt query') \<longrightarrow>
      bundle_total (searchTerms rt idx query opts) = bundle_total (searchTerms rt idx query' opts)
      \<and> bundle_entry (searchTerms rt idx query opts)
          = bundle_entry (searchTerms rt idx query' opts)
      \<and> bundle_issue (searchTerms rt idx query opts)
          = bundle_issue (searchTerms rt idx query' opts))"
proof -
  have short: "length (trim rt (toLowerCase rt query)) < 2 \<longrightarrow>
      bundle_total (searchTerms rt idx query opts) = 0
      \<and> bundle_entry (searchTerms rt idx query opts) = []
      \<and> bundle_issue (searchTerms rt idx query opts) = Some ''Query too short''"
    using searchTerms_too_short [of rt query idx opts] by blast
  have example: "trim rt (toLowerCase rt '' x '') = ''x'' \<longrightarrow>
      length '' x '' = 3
      \<and> bundle_total (searchTerms rt idx '' x '' opts) = 0
      \<and> bundle_entry (searchTerms rt idx '' x '' opts) = []
      \<and> bundle_issue (searchTerms rt idx '' x '' opts) = Some ''Query too short''"
  proof
    assume "trim rt (toLowerCase rt '' x '') = ''x''"
    then have "length (trim rt (toLowerCase rt '' x '')) < 2"
      by simp
    from searchTerms_too_short [OF this, of idx opts]
    show "length '' x '' = 3
      \<and> bundle_total (searchTerms rt idx '' x '' opts) = 0
      \<and> bundle_entry (searchTerms rt idx '' x '' opts) = []
      \<and> bundle_issue (searchTerms rt idx '' x '' opts) = Some ''Query too short''"
      by simp
  qed
  note scanned = searchTerms_scanned [of rt query idx opts]
  note same = searchTerms_same_normal_form [of rt query query' idx opts]
  from short example scanned same show ?thesis
    by blast
qed

text \<open>
  With the runtime restricted to ASCII: \<open>" x "\<close> and a query of two blanks and a
  letter are rejected with the reason; \<open>"  VATA "\<close> finds the four entries that
  \<open>vata\<close> finds.
\<close>

theorem searchTerms_normalises_query_witness:
  "bundle_issue (searchTerms ascii_runtime ex_index '' x '' (ex_limit 2)) = Some ''Query too short''
   \<and> bundle_entry (searchTerms ascii_runtime ex_index '' x '' (ex_limit 2)) = []
   \<and> bundle_issue (searchTerms ascii_runtime ex_index ''  X'' (ex_limit 2)) = Some ''Query too short''
   \<and> bundle_issue (searchTerms ascii_runtime ex_index ''  VATA '' (ex_limit 2)) = None
   \<and> bundle_total (searchTerms ascii_runtime ex_index ''  VATA '' (ex_limit 2)) = 4
   \<and> bundle_entry (searchTerms ascii_runtime ex_index ''  VATA '' (ex_limit 2))
       = bundle_entry (searchTerms ascii_runtime ex_index ''vata'' (ex_limit 2))"
proof -
  have 1: "trim ascii_runtime (toLowerCase ascii_runtime '' x '') = ''x''"
    by code_simp
  have 2: "length (trim ascii_runtime (toLowerCase ascii_runtime ''  X'')) < 2"
    by code_simp
  have 3: "2 \<le> length (trim ascii_runtime (toLowerCase ascii_runtime ''  VATA ''))"
    by code_simp
  have 4: "trim ascii_runtime (toLowerCase ascii_runtime ''  VATA '')
         = trim ascii_runtime (toLowerCase ascii_runtime ''vata'')"
    by code_simp
  have 5: "bundle_total (searchTerms ascii_runtime ex_index ''vata'' (ex_limit 2)) = 4"
    by code_simp
  from searchTerms_normalises_query [where rt = ascii_runtime and idx = ex_index
      and opts = "ex_limit 2" and query = "''  X''" and query' = "''  X''"] 1 2
  have a: "bundle_issue (searchTerms ascii_runtime ex_index '' x '' (ex_limit 2))
        = Some ''Query too short''
      \<and> bundle_entry (searchTerms ascii_runtime ex_index '' x '' (ex_limit 2)) = []
      \<and> bundle_issue (searchTerms ascii_runtime ex_index ''  X'' (ex_limit 2))
        = Some ''Query too short''"
    by blast
  from searchTerms_normalises_query [where rt = ascii_runtime and idx = ex_index
      and opts = "ex_limit 2" and query = "''  VATA ''" and query' = "''vata''"] 3 4
  have b: "bundle_issue (searchTerms ascii_runtime ex_index ''  VATA '' (ex_limit 2)) = None
      \<and> bundle_total (searchTerms ascii_runtime ex_index ''  VATA '' (ex_limit 2))
        = bundle_total (searchTerms ascii_runtime ex_index ''vata'' (ex_limit 2))
      \<and> bundle_entry (searchTerms ascii_runtime ex_index ''  VATA '' (ex_limit 2))
        = bundle_entry (searchTerms ascii_runtime ex_index ''vata'' (ex_limit 2))"
    by blast
  from a b 5 show ?thesis
    by simp
qed

section \<open>Index build\<close>

lemma attach_Nil [simp]: "attach [] e = e"
  by (simp add: attach_def)






















end
